theory Spec2Isabelle
  imports Complex_Main
begin

section \<open>Data model\<close>

text \<open>
  The player simulation and the round state machine of the game, embedded from
  \<^verbatim>\<open>game/entities/Player.ts\<close> and \<^verbatim>\<open>game/managers/PlayerManager.ts\<close>.

  JavaScript numbers are modelled as follows: positions, angles, speeds and the
  thresholds read from the configuration are \<^typ>\<open>real\<close> (ideal arithmetic, no
  rounding); the frame counters, which only ever start at 0 and are incremented by 1,
  are \<^typ>\<open>int\<close>, and so are the score, the round count and the match length.
\<close>

text \<open>\<^verbatim>\<open>PlayerTemplate\<close> (types/player.types.ts); the fields carry the prefix
  \<open>t_\<close> because \<^verbatim>\<open>Player\<close> copies four of them under the same names.\<close>

record PlayerTemplate =
  t_ready :: bool
  t_count :: int
  t_name :: string
  t_color :: string
  t_left :: string
  t_right :: string

text \<open>\<^verbatim>\<open>PlayerPhysicsConfig\<close>, prefix \<open>c_\<close>.\<close>

record PlayerPhysicsConfig =
  c_size :: real
  c_speed :: real
  c_curveSpeed :: real
  c_holeRate :: real
  c_holeRateRnd :: real
  c_holeSize :: real
  c_holeSizeRnd :: real

text \<open>\<^verbatim>\<open>PlayerConstants\<close>: every field is optional; \<open>None\<close> is an absent key.\<close>

record PlayerConstants =
  k_afterDieTime :: "real option"
  k_collisionTolerance :: "real option"
  k_startTime :: "real option"

record PlayerManagerConfig =
  cfg_maxRounds :: int
  cfg_physics :: PlayerPhysicsConfig

text \<open>
  The calls a player or the manager makes on the canvas context, in the order they are
  made. \<open>ArcFill x y r c\<close> stands for the sequence
  \<^verbatim>\<open>beginPath; fillStyle = c; arc(x, y, r, 0, 2\<pi>); fill\<close> of \<^verbatim>\<open>#drawStroke\<close>.
\<close>

datatype ctx_call =
  ClearRect real real real real
| ArcFill real real real string
| GetImageData int int

type_synonym pixel = "nat \<times> nat \<times> nat"

text \<open>
  What a frame reads from outside the two classes: the key table, the frame-rate
  reporter (\<open>None\<close> is \<^verbatim>\<open>undefined\<close>), the dimensions, the browser's rasteriser (the
  red, green and blue bytes \<^verbatim>\<open>getImageData(x, y, 1, 1)\<close> answers after the given calls)
  and the values \<^verbatim>\<open>Math.random()\<close> returns, by call number.
\<close>

record env =
  isKeyPressed :: "string \<Rightarrow> bool"
  currentFps :: "real option"
  width :: real
  height :: real
  scoreWidth :: real
  getImageData :: "ctx_call list \<Rightarrow> int \<Rightarrow> int \<Rightarrow> pixel"
  random :: "nat \<Rightarrow> real"

text \<open>The state shared by all players: the calls made on the context so far and the
  number of \<^verbatim>\<open>Math.random()\<close> calls made so far.\<close>

record world =
  ctx :: "ctx_call list"
  seed :: nat

text \<open>
  \<^verbatim>\<open>class Player\<close>. The fields \<^verbatim>\<open>#size\<close>, \<^verbatim>\<open>#x\<close> and \<^verbatim>\<open>#y\<close> are
  \<open>size_p\<close>, \<open>xpos\<close> and \<open>ypos\<close>; \<open>onDeath\<close> says whether a death callback was
  passed to the constructor.
\<close>

record player =
  name :: string
  color :: string
  left :: string
  right :: string
  score :: int
  dead :: bool
  size_p :: real
  speed :: real
  curveSpeed :: real
  holeRate :: real
  holeRateRnd :: real
  holeSize :: real
  holeSizeRnd :: real
  afterDieTime :: real
  collisionTolerance :: real
  startTime :: real
  xpos :: real
  ypos :: real
  angle :: real
  dying :: bool
  afterDieCount :: int
  counter :: int
  hole :: bool
  holeCounter :: int
  nextHole :: real
  nextHoleSize :: real
  onDeath :: bool

section \<open>Player\<close>

text \<open>\<^verbatim>\<open>DEFAULT_CONSTANTS\<close> and the constructor: \<^verbatim>\<open>{ ...DEFAULT_CONSTANTS, ...constants }\<close>.\<close>

definition DEFAULT_afterDieTime :: real where "DEFAULT_afterDieTime = 0"
definition DEFAULT_collisionTolerance :: real where "DEFAULT_collisionTolerance = 30"
definition DEFAULT_startTime :: real where "DEFAULT_startTime = 40"

definition finalConstant :: "real \<Rightarrow> PlayerConstants option \<Rightarrow> (PlayerConstants \<Rightarrow> real option) \<Rightarrow> real" where
  "finalConstant dflt constants sel =
     (case constants of None \<Rightarrow> dflt
      | Some k \<Rightarrow> (case sel k of None \<Rightarrow> dflt | Some v \<Rightarrow> v))"

definition createPlayer ::
  "PlayerTemplate \<Rightarrow> PlayerPhysicsConfig \<Rightarrow> PlayerConstants option \<Rightarrow> bool \<Rightarrow> player" where
  "createPlayer template physics constants cb =
     \<lparr> name = t_name template, color = t_color template,
       left = t_left template, right = t_right template,
       score = 0, dead = False,
       size_p = c_size physics, speed = c_speed physics, curveSpeed = c_curveSpeed physics,
       holeRate = c_holeRate physics, holeRateRnd = c_holeRateRnd physics,
       holeSize = c_holeSize physics, holeSizeRnd = c_holeSizeRnd physics,
       afterDieTime = finalConstant DEFAULT_afterDieTime constants k_afterDieTime,
       collisionTolerance = finalConstant DEFAULT_collisionTolerance constants k_collisionTolerance,
       startTime = finalConstant DEFAULT_startTime constants k_startTime,
       xpos = 0, ypos = 0, angle = 0,
       dying = False, afterDieCount = 0, counter = 0,
       hole = False, holeCounter = 0, nextHole = 0, nextHoleSize = 0,
       onDeath = cb \<rparr>"

text \<open>\<^verbatim>\<open>Math.random()\<close>: the next value of the tape.\<close>

definition Math_random :: "env \<Rightarrow> world \<Rightarrow> real \<times> world" where
  "Math_random e w = (random e (seed w), w\<lparr>seed := seed w + 1\<rparr>)"

definition getNextHole :: "env \<Rightarrow> player \<Rightarrow> world \<Rightarrow> player \<times> world" where
  "getNextHole e p w =
     (let (r, w') = Math_random e w
      in (p\<lparr>nextHole := holeRate p + (r * 2 - 1) * holeRateRnd p\<rparr>, w'))"

definition getNextHoleSize :: "env \<Rightarrow> player \<Rightarrow> world \<Rightarrow> player \<times> world" where
  "getNextHoleSize e p w =
     (let (r, w') = Math_random e w
      in (p\<lparr>nextHoleSize := holeSize p + (r * 2 - 1) * holeSizeRnd p\<rparr>, w'))"

text \<open>\<^verbatim>\<open>Player.init()\<close>.\<close>

definition player_init :: "env \<Rightarrow> player \<Rightarrow> world \<Rightarrow> player \<times> world" where
  "player_init e p w =
     (let p1 = p\<lparr>counter := 0, holeCounter := 0, afterDieCount := 0,
                 dying := False, hole := False, dead := False\<rparr>;
          gameWidth = width e - scoreWidth e;
          (r1, w1) = Math_random e w;
          p2 = p1\<lparr>xpos := (gameWidth - 100) * r1 + 50\<rparr>;
          (r2, w2) = Math_random e w1;
          p3 = p2\<lparr>ypos := (height e - 100) * r2 + 50\<rparr>;
          (r3, w3) = Math_random e w2;
          p4 = p3\<lparr>angle := r3 * 360\<rparr>;
          (p5, w5) = getNextHole e p4 w3
      in getNextHoleSize e p5 w5)"

text \<open>\<^verbatim>\<open>#drawStroke()\<close>.\<close>

definition drawStroke :: "player \<Rightarrow> world \<Rightarrow> world" where
  "drawStroke p w = w\<lparr>ctx := ctx w @ [ArcFill (xpos p) (ypos p) (size_p p) (color p)]\<rparr>"

text \<open>\<^verbatim>\<open>#createHole()\<close>.\<close>

definition createHole :: "env \<Rightarrow> player \<Rightarrow> world \<Rightarrow> player \<times> world" where
  "createHole e p w =
     (let p1 = p\<lparr>holeCounter := holeCounter p + 1\<rparr>
      in if real_of_int (holeCounter p1) > nextHole p1 \<or> hole p1 then
           (let p2 = p1\<lparr>hole := True\<rparr>
            in if real_of_int (holeCounter p2) > nextHole p2 + nextHoleSize p2 then
                 (let (p3, w3) = getNextHole e p2 w;
                      (p4, w4) = getNextHoleSize e p3 w3
                  in (p4\<lparr>hole := False, holeCounter := 0\<rparr>, w4))
               else (p2, w))
         else (p1, w))"

text \<open>\<^verbatim>\<open>Math.round\<close>: the nearest integer, halves upwards.\<close>

definition Math_round :: "real \<Rightarrow> int" where
  "Math_round v = \<lfloor>v + 1 / 2\<rfloor>"

definition nonBlack :: "pixel \<Rightarrow> bool" where
  "nonBlack px = (case px of (r, g, b) \<Rightarrow> r \<noteq> 0 \<or> g \<noteq> 0 \<or> b \<noteq> 0)"

text \<open>\<^verbatim>\<open>#isColliding()\<close>: the boundary test returns before any pixel is read; otherwise
  two pixels are read, whatever the first one is.\<close>

definition isColliding :: "env \<Rightarrow> player \<Rightarrow> world \<Rightarrow> bool \<times> world" where
  "isColliding e p w =
     (let gameWidth = width e - scoreWidth e
      in if xpos p < 0 \<or> xpos p > gameWidth \<or> ypos p < 0 \<or> ypos p > height e then (True, w)
         else
           (let rcol = size_p p + 2;
                rad1 = ((angle p + collisionTolerance p) * pi) / 180;
                y1 = Math_round (ypos p + rcol * cos rad1);
                x1 = Math_round (xpos p + rcol * sin rad1);
                p1 = getImageData e (ctx w) x1 y1;
                w1 = w\<lparr>ctx := ctx w @ [GetImageData x1 y1]\<rparr>;
                rad2 = ((angle p - collisionTolerance p) * pi) / 180;
                y2 = Math_round (ypos p + rcol * cos rad2);
                x2 = Math_round (xpos p + rcol * sin rad2);
                p2 = getImageData e (ctx w1) x2 y2;
                w2 = w1\<lparr>ctx := ctx w1 @ [GetImageData x2 y2]\<rparr>
            in (nonBlack p1 \<or> nonBlack p2, w2)))"

text \<open>The frame-rate correction of \<^verbatim>\<open>draw()\<close>: \<^verbatim>\<open>fps && fps > 20 ? 60 / fps : 1\<close>.\<close>

definition speedMultiplier :: "env \<Rightarrow> real" where
  "speedMultiplier e =
     (case currentFps e of None \<Rightarrow> 1
      | Some fps \<Rightarrow> if fps \<noteq> 0 \<and> fps > 20 then 60 / fps else 1)"

text \<open>The steering and the position update of \<^verbatim>\<open>draw()\<close>.\<close>

definition move :: "env \<Rightarrow> player \<Rightarrow> player" where
  "move e p =
     (let adjustedSpeed = speed p * speedMultiplier e;
          adjustedAngSpeed = curveSpeed p * speedMultiplier e;
          p1 = (if isKeyPressed e (left p) then p\<lparr>angle := angle p + adjustedAngSpeed\<rparr>
                else if isKeyPressed e (right p) then p\<lparr>angle := angle p - adjustedAngSpeed\<rparr>
                else p);
          angleRad = (angle p1 * pi) / 180;
          p2 = p1\<lparr>ypos := ypos p1 + adjustedSpeed * cos angleRad\<rparr>
      in p2\<lparr>xpos := xpos p2 + adjustedSpeed * sin angleRad\<rparr>)"

text \<open>
  \<^verbatim>\<open>Player.draw()\<close>. The third component is the call of the death callback made during
  the frame, with its argument, if any.
\<close>

definition draw :: "env \<Rightarrow> player \<Rightarrow> world \<Rightarrow> player \<times> world \<times> string option" where
  "draw e p w =
     (let p1 = p\<lparr>counter := counter p + 1\<rparr>
      in if real_of_int (counter p1) < startTime p1 \<and> counter p1 > 2 then (p1, w, None)
         else if dying p1 \<and> real_of_int (afterDieCount p1) > afterDieTime p1 then
           (p1\<lparr>dead := True\<rparr>, w, if onDeath p1 then Some (name p1) else None)
         else
           (let p2 = (if dying p1 then p1\<lparr>afterDieCount := afterDieCount p1 + 1\<rparr> else p1);
                p3 = move e p2;
                (p4, w4) = createHole e p3 w
            in if \<not> hole p4 then
                 (let (hit, w5) = isColliding e p4 w4;
                      p5 = (if hit then p4\<lparr>dying := True\<rparr> else p4)
                  in (p5, drawStroke p5 w5, None))
               else (p4, w4, None)))"

text \<open>
  Three observers of a run of frames. \<open>trailDraws w\<close> counts the trail circles drawn on
  the canvas so far. \<open>passes p\<close> says that the next \<^verbatim>\<open>draw()\<close> of \<open>p\<close> gets past
  the startup gate and the death gate, that is, reaches \<^verbatim>\<open>#createHole()\<close>: such a frame
  is a draw-frame. \<open>frames es n\<close> is \<open>n\<close> successive calls of \<^verbatim>\<open>draw()\<close>, the
  \<open>i\<close>-th (from 0) under the keys, frame rate and canvas \<open>es i\<close>, and
  \<open>drawFrames es n\<close> is the number of draw-frames among them.
\<close>

definition trailDraws :: "world \<Rightarrow> nat" where
  "trailDraws w = length (filter (\<lambda>c. case c of ArcFill x y r col \<Rightarrow> True | _ \<Rightarrow> False) (ctx w))"

definition passes :: "player \<Rightarrow> bool" where
  "passes p \<longleftrightarrow>
     \<not> (real_of_int (counter p + 1) < startTime p \<and> counter p + 1 > 2)
   \<and> \<not> (dying p \<and> real_of_int (afterDieCount p) > afterDieTime p)"

fun frames :: "(nat \<Rightarrow> env) \<Rightarrow> nat \<Rightarrow> player \<Rightarrow> world \<Rightarrow> player \<times> world" where
  "frames es 0 p w = (p, w)"
| "frames es (Suc n) p w =
     (let (p', w') = frames es n p w;
          (p'', w'', cb) = draw (es n) p' w'
      in (p'', w''))"

fun drawFrames :: "(nat \<Rightarrow> env) \<Rightarrow> nat \<Rightarrow> player \<Rightarrow> world \<Rightarrow> nat" where
  "drawFrames es 0 p w = 0"
| "drawFrames es (Suc n) p w =
     drawFrames es n p w + (if passes (fst (frames es n p w)) then 1 else 0)"

section \<open>PlayerManager\<close>

text \<open>
  \<^verbatim>\<open>class PlayerManager\<close>. \<open>onNewRound\<close> and \<open>onFinish\<close> say whether the optional
  callback was injected; what the host does in them is outside the class, so a call of
  one of them is reported as a value of \<open>callback\<close>.
\<close>

record manager =
  running :: bool
  roundCount :: int
  maxRounds :: int
  playerTemplates :: "PlayerTemplate list"
  pool :: "player list"
  playerConstants :: "PlayerConstants option"
  onNewRound :: bool
  onFinish :: bool

datatype callback = OnNewRound | OnFinish

definition DEFAULT_PLAYER_TEMPLATES :: "PlayerTemplate list" where
  "DEFAULT_PLAYER_TEMPLATES =
     [\<lparr>t_ready = False, t_count = 1, t_name = ''red'', t_color = ''#f82801'',
       t_left = ''1'', t_right = ''q''\<rparr>,
      \<lparr>t_ready = False, t_count = 2, t_name = ''yellow'', t_color = ''#c0c001'',
       t_left = ''Shift'', t_right = ''Ctrl''\<rparr>,
      \<lparr>t_ready = False, t_count = 3, t_name = ''orange'', t_color = ''#f87801'',
       t_left = ''n'', t_right = ''m''\<rparr>,
      \<lparr>t_ready = False, t_count = 4, t_name = ''green'', t_color = ''#01c801'',
       t_left = ''left'', t_right = ''down''\<rparr>,
      \<lparr>t_ready = False, t_count = 5, t_name = ''pink'', t_color = ''#d850b0'',
       t_left = ''o'', t_right = ''p''\<rparr>,
      \<lparr>t_ready = False, t_count = 6, t_name = ''blue'', t_color = ''#02a0c8'',
       t_left = ''mouse1'', t_right = ''mouse2''\<rparr>]"

text \<open>The constructor; \<open>None\<close> for the templates is the omitted second argument.\<close>

definition PlayerManager_new ::
  "PlayerConstants option \<Rightarrow> bool \<Rightarrow> bool \<Rightarrow> PlayerTemplate list option \<Rightarrow> manager" where
  "PlayerManager_new constants newRound finish templates =
     \<lparr> running = False, roundCount = 0, maxRounds = 0,
       playerTemplates = (case templates of Some ts \<Rightarrow> ts | None \<Rightarrow> DEFAULT_PLAYER_TEMPLATES),
       pool = [],
       playerConstants = constants,
       onNewRound = newRound, onFinish = finish \<rparr>"

text \<open>
  \<^verbatim>\<open>PlayerManager.init(config)\<close>. \<open>init_template\<close> is the body of the loop over the
  templates; its second argument is \<^verbatim>\<open>this.#pool\<close>, which \<open>init\<close> has set to the
  empty array before the loop starts.
\<close>

definition init_template ::
  "PlayerManagerConfig \<Rightarrow> PlayerConstants option \<Rightarrow> player list \<Rightarrow> PlayerTemplate \<Rightarrow> player list" where
  "init_template config constants pl template =
     (if t_ready template then
        (let player = createPlayer template (cfg_physics config) constants True;
             existing = find (\<lambda>p. name p = t_name template) pl;
             player' = (case existing of Some ex \<Rightarrow> player\<lparr>score := score ex\<rparr>
                        | None \<Rightarrow> player)
         in pl @ [player'])
      else pl)"

definition init :: "PlayerManagerConfig \<Rightarrow> manager \<Rightarrow> manager" where
  "init config m =
     (let m1 = m\<lparr>maxRounds := cfg_maxRounds config, roundCount := 0, pool := []\<rparr>
      in m1\<lparr>pool := foldl (init_template config (playerConstants m1)) (pool m1)
                         (playerTemplates m1)\<rparr>)"

text \<open>\<^verbatim>\<open>PlayerManager.startRound()\<close>; \<open>init_all\<close> is its loop over the pool.\<close>

fun init_all :: "env \<Rightarrow> player list \<Rightarrow> world \<Rightarrow> player list \<times> world" where
  "init_all e [] w = ([], w)"
| "init_all e (p # ps) w =
     (let (p', w1) = player_init e p w;
          (ps', w2) = init_all e ps w1
      in (p' # ps', w2))"

definition startRound :: "env \<Rightarrow> manager \<Rightarrow> world \<Rightarrow> manager \<times> world" where
  "startRound e m w =
     (let m1 = m\<lparr>running := True\<rparr>;
          w1 = w\<lparr>ctx := ctx w @ [ClearRect 0 0 (width e) (height e)]\<rparr>;
          (ps, w2) = init_all e (pool m1) w1
      in (m1\<lparr>pool := ps\<rparr>, w2))"

text \<open>
  \<^verbatim>\<open>PlayerManager.checkRoundOver()\<close>: the loop runs over the pool with the count of dead
  players seen so far and stops at the first player at which the count has reached
  \<^verbatim>\<open>pool.length - 1\<close>.
\<close>

fun checkRoundOver_loop :: "manager \<Rightarrow> int \<Rightarrow> player list \<Rightarrow> manager" where
  "checkRoundOver_loop m deadCount [] = m"
| "checkRoundOver_loop m deadCount (player # rest) =
     (let deadCount' = (if dead player then deadCount + 1 else deadCount)
      in if deadCount' \<ge> int (length (pool m)) - 1 then
           m\<lparr>running := False, roundCount := roundCount m + 1\<rparr>
         else checkRoundOver_loop m deadCount' rest)"

definition checkRoundOver :: "manager \<Rightarrow> manager" where
  "checkRoundOver m = checkRoundOver_loop m 0 (pool m)"

text \<open>
  \<^verbatim>\<open>PlayerManager.animate()\<close>. Its result holds the manager and the shared state after
  the call, the callbacks \<^verbatim>\<open>onNewRound\<close>/\<^verbatim>\<open>onFinish\<close> it has called and the
  positions in the pool of the players whose \<^verbatim>\<open>draw()\<close> it has called, both in the order of
  the calls. \<open>animate_player e i\<close> is the body of the loop for the player at position
  \<open>i\<close>: the death callback built by \<open>init\<close> runs \<open>checkRoundOver\<close> before
  \<^verbatim>\<open>draw()\<close> returns, on a pool that already holds the dead player.
\<close>

record outcome =
  mgr :: manager
  wld :: world
  fired :: "callback list"
  drawn :: "nat list"

definition animate_player :: "env \<Rightarrow> outcome \<Rightarrow> nat \<Rightarrow> outcome" where
  "animate_player e s i =
     (let player = pool (mgr s) ! i
      in if \<not> dead player then
           (let (player', w', cb) = draw e player (wld s);
                m1 = (mgr s)\<lparr>pool := (pool (mgr s))[i := player']\<rparr>;
                m2 = (case cb of None \<Rightarrow> m1 | Some n \<Rightarrow> checkRoundOver m1)
            in s\<lparr>mgr := m2, wld := w', drawn := drawn s @ [i]\<rparr>)
         else s)"

definition animate :: "env \<Rightarrow> manager \<Rightarrow> world \<Rightarrow> outcome" where
  "animate e m w =
     (if running m then
        foldl (animate_player e) \<lparr>mgr = m, wld = w, fired = [], drawn = []\<rparr>
          [0..<length (pool m)]
      else if isKeyPressed e ''space'' then
        (if roundCount m < maxRounds m then
           \<lparr>mgr = m, wld = w, fired = (if onNewRound m then [OnNewRound] else []), drawn = []\<rparr>
         else
           \<lparr>mgr = m\<lparr>running := False\<rparr>, wld = w,
            fired = (if onFinish m then [OnFinish] else []), drawn = []\<rparr>)
      else \<lparr>mgr = m, wld = w, fired = [], drawn = []\<rparr>)"

text \<open>The states of a manager that calls of its public methods can produce, whatever
  the keys, the frame rate, the canvas and the random values are at each call.\<close>

inductive reachable :: "manager \<Rightarrow> bool" where
  reach_new: "reachable (PlayerManager_new constants newRound finish templates)"
| reach_init: "reachable m \<Longrightarrow> reachable (init config m)"
| reach_startRound: "reachable m \<Longrightarrow> reachable (fst (startRound e m w))"
| reach_animate: "reachable m \<Longrightarrow> reachable (mgr (animate e m w))"
| reach_checkRoundOver: "reachable m \<Longrightarrow> reachable (checkRoundOver m)"

text \<open>The number of dead players of a pool.\<close>

definition deadCount :: "player list \<Rightarrow> nat" where
  "deadCount ps = length (filter dead ps)"

text \<open>
  The hole state of a player without jitter, \<open>k\<close> calls of \<^verbatim>\<open>#createHole()\<close> after
  \<^verbatim>\<open>init()\<close>, for a hole onset of \<open>R\<close> frames and a hole of \<open>S\<close> frames: the hole
  counter runs through \<open>0, \<dots>, R + S\<close> and the hole flag is set while it is above \<open>R\<close>.
\<close>

definition steady :: "nat \<Rightarrow> nat \<Rightarrow> nat \<Rightarrow> player \<Rightarrow> bool" where
  "steady R S k p \<longleftrightarrow>
     holeRateRnd p = 0 \<and> holeSizeRnd p = 0 \<and> holeRate p = real R \<and> holeSize p = real S
   \<and> nextHole p = real R \<and> nextHoleSize p = real S
   \<and> holeCounter p = int (k mod (R + S + 1)) \<and> hole p = (R < k mod (R + S + 1))"

section \<open>Concrete configurations\<close>

text \<open>The \<^verbatim>\<open>classic\<close> preset of \<^verbatim>\<open>config/gameConfigurations.ts\<close>, and the same with
  the two jitters set to 0 and a hole every frame.\<close>

definition classic :: PlayerPhysicsConfig where
  "classic = \<lparr>c_size = 3, c_speed = 16 / 10, c_curveSpeed = 2, c_holeRate = 450,
              c_holeRateRnd = 200, c_holeSize = 11, c_holeSizeRnd = 3\<rparr>"

definition tiny_holes :: PlayerPhysicsConfig where
  "tiny_holes = \<lparr>c_size = 3, c_speed = 16 / 10, c_curveSpeed = 2, c_holeRate = 1,
                 c_holeRateRnd = 0, c_holeSize = 1, c_holeSizeRnd = 0\<rparr>"

definition red :: PlayerTemplate where
  "red = \<lparr>t_ready = True, t_count = 1, t_name = ''red'', t_color = ''#f82801'',
          t_left = ''1'', t_right = ''q''\<rparr>"

definition yellow :: PlayerTemplate where
  "yellow = \<lparr>t_ready = True, t_count = 2, t_name = ''yellow'', t_color = ''#c0c001'',
             t_left = ''Shift'', t_right = ''Ctrl''\<rparr>"

text \<open>An 800 by 600 canvas with a score strip of 100 pixels, no key held, no frame rate
  reported, \<^verbatim>\<open>Math.random()\<close> always 0; every pixel black, or every pixel red (the
  canvas the test suites of \<^verbatim>\<open>Player\<close> and \<^verbatim>\<open>PlayerManager\<close> use to provoke a
  collision); and the black one with the space key down.\<close>

definition black_env :: env where
  "black_env = \<lparr>isKeyPressed = (\<lambda>k. False), currentFps = None, width = 800, height = 600,
                scoreWidth = 100, getImageData = (\<lambda>calls x y. (0, 0, 0)),
                random = (\<lambda>n. 0)\<rparr>"

definition red_env :: env where
  "red_env = black_env\<lparr>getImageData := (\<lambda>calls x y. (255, 0, 0))\<rparr>"

definition space_env :: env where
  "space_env = black_env\<lparr>isKeyPressed := (\<lambda>k. k = ''space'')\<rparr>"

definition blank :: world where
  "blank = \<lparr>ctx = [], seed = 0\<rparr>"

text \<open>A player of the default constants, and one that starts at once
  (\<^verbatim>\<open>startTime: 0\<close>), both after \<^verbatim>\<open>init()\<close>.\<close>

definition fresh_red :: player where
  "fresh_red = fst (player_init black_env (createPlayer red classic None True) blank)"

definition quick :: PlayerConstants where
  "quick = \<lparr>k_afterDieTime = None, k_collisionTolerance = None, k_startTime = Some 0\<rparr>"

definition game2 :: manager where
  "game2 = PlayerManager_new (Some quick) True True (Some [red, yellow])"

definition config1 :: PlayerManagerConfig where
  "config1 = \<lparr>cfg_maxRounds = 1, cfg_physics = classic\<rparr>"

text \<open>The first three frames of a player of the default constants on a canvas whose
  every pixel is red.\<close>

definition frame1 :: "player \<times> world \<times> string option" where
  "frame1 = draw red_env fresh_red blank"

definition frame2 :: "player \<times> world \<times> string option" where
  "frame2 = draw red_env (fst frame1) (fst (snd frame1))"

definition frame3 :: "player \<times> world \<times> string option" where
  "frame3 = draw red_env (fst frame2) (fst (snd frame2))"

text \<open>A match of one round between two players who start at once, on the red canvas,
  after \<^verbatim>\<open>startRound()\<close>.\<close>

definition round1 :: "manager \<times> world" where
  "round1 = startRound red_env (init config1 game2) blank"

text \<open>The two players of that match as the constructor makes them.\<close>

definition quick_red :: player where
  "quick_red = createPlayer red classic (Some quick) True"

definition quick_yellow :: player where
  "quick_yellow = createPlayer yellow classic (Some quick) True"

text \<open>A match of one round with a single player, after its round is over; then two
  frames during which the space key stays down.\<close>

definition game1 :: manager where
  "game1 = PlayerManager_new None True True (Some [red])"

definition over1 :: manager where
  "over1 = checkRoundOver (init config1 game1)"

definition held1 :: outcome where
  "held1 = animate space_env over1 blank"

definition held2 :: outcome where
  "held2 = animate space_env (mgr held1) (wld held1)"

text \<open>A round started with the default templates, none of which is ready.\<close>

definition nobody :: manager where
  "nobody = fst (startRound black_env (init config1 (PlayerManager_new None True True None)) blank)"

text \<open>The two-player match after some play: both players have scored 5.\<close>

definition played :: manager where
  "played = (init config1 game2)\<lparr>pool := map (\<lambda>p. p\<lparr>score := 5\<rparr>) (pool (init config1 game2))\<rparr>"

text \<open>
  A player with a hole onset of 1 frame and a hole of 1 frame, no jitter, that starts at
  once. \<open>low0\<close>, \<dots>, \<open>low3\<close> are its \<^verbatim>\<open>init()\<close> and first three frames on a black
  canvas only 52 pixels high: it starts at height 50 and moves down by 1.6 a frame.
  \<open>wide0\<close>, \<dots>, \<open>wide5\<close> are its \<^verbatim>\<open>init()\<close> and first five frames on the black
  canvas of 800 by 600, and \<open>graze0\<close>, \<dots>, \<open>graze3\<close> its \<^verbatim>\<open>init()\<close> and first
  three frames on the red one.
\<close>

definition tiny_red :: player where
  "tiny_red = createPlayer red tiny_holes (Some quick) True"

definition low_env :: env where
  "low_env = black_env\<lparr>height := 52\<rparr>"

definition low0 :: "player \<times> world" where
  "low0 = player_init low_env tiny_red blank"

definition low1 :: "player \<times> world \<times> string option" where
  "low1 = draw low_env (fst low0) (snd low0)"

definition low2 :: "player \<times> world \<times> string option" where
  "low2 = draw low_env (fst low1) (fst (snd low1))"

definition low3 :: "player \<times> world \<times> string option" where
  "low3 = draw low_env (fst low2) (fst (snd low2))"

definition wide0 :: "player \<times> world" where
  "wide0 = player_init black_env tiny_red blank"

definition wide1 :: "player \<times> world \<times> string option" where
  "wide1 = draw black_env (fst wide0) (snd wide0)"

definition wide2 :: "player \<times> world \<times> string option" where
  "wide2 = draw black_env (fst wide1) (fst (snd wide1))"

definition wide3 :: "player \<times> world \<times> string option" where
  "wide3 = draw black_env (fst wide2) (fst (snd wide2))"

definition wide4 :: "player \<times> world \<times> string option" where
  "wide4 = draw black_env (fst wide3) (fst (snd wide3))"

definition wide5 :: "player \<times> world \<times> string option" where
  "wide5 = draw black_env (fst wide4) (fst (snd wide4))"

definition graze0 :: "player \<times> world" where
  "graze0 = player_init red_env tiny_red blank"

definition graze1 :: "player \<times> world \<times> string option" where
  "graze1 = draw red_env (fst graze0) (snd graze0)"

definition graze2 :: "player \<times> world \<times> string option" where
  "graze2 = draw red_env (fst graze1) (fst (snd graze1))"

definition graze3 :: "player \<times> world \<times> string option" where
  "graze3 = draw red_env (fst graze2) (fst (snd graze2))"

text \<open>The same player with the default constants (\<^verbatim>\<open>startTime = 40\<close>): \<^verbatim>\<open>init()\<close> and
  the first two frames on the black canvas.\<close>

definition calm0 :: "player \<times> world" where
  "calm0 = player_init black_env (createPlayer red tiny_holes None True) blank"

definition calm1 :: "player \<times> world \<times> string option" where
  "calm1 = draw black_env (fst calm0) (snd calm0)"

definition calm2 :: "player \<times> world \<times> string option" where
  "calm2 = draw black_env (fst calm1) (fst (snd calm1))"

text \<open>The red player of the two-player match, alone on the red canvas: \<^verbatim>\<open>init()\<close> and
  the first three frames.\<close>

definition swift0 :: "player \<times> world" where
  "swift0 = player_init red_env quick_red blank"

definition swift1 :: "player \<times> world \<times> string option" where
  "swift1 = draw red_env (fst swift0) (snd swift0)"

definition swift2 :: "player \<times> world \<times> string option" where
  "swift2 = draw red_env (fst swift1) (fst (snd swift1))"

definition swift3 :: "player \<times> world \<times> string option" where
  "swift3 = draw red_env (fst swift2) (fst (snd swift2))"

text \<open>
  A match of two rounds between the two players, on the red canvas: \<^verbatim>\<open>init()\<close> and
  \<^verbatim>\<open>startRound()\<close>, three frames, and one more frame with the space key down.
\<close>

definition config2 :: PlayerManagerConfig where
  "config2 = \<lparr>cfg_maxRounds = 2, cfg_physics = classic\<rparr>"

definition duel0 :: "manager \<times> world" where
  "duel0 = startRound red_env (init config2 game2) blank"

definition duel1 :: outcome where
  "duel1 = animate red_env (fst duel0) (snd duel0)"

definition duel2 :: outcome where
  "duel2 = animate red_env (mgr duel1) (wld duel1)"

definition duel3 :: outcome where
  "duel3 = animate red_env (mgr duel2) (wld duel2)"

definition duel4 :: outcome where
  "duel4 = animate space_env (mgr duel3) (wld duel3)"

section \<open>Facts about the concrete configurations\<close>

lemma finalConstant_None [simp]: "finalConstant d None sel = d"
  by (simp add: finalConstant_def)

lemma fresh_red_fields:
  "counter fresh_red = 0" "startTime fresh_red = 40" "afterDieTime fresh_red = 0"
  "xpos fresh_red = 50" "ypos fresh_red = 50" "angle fresh_red = 0" "dying fresh_red = False"
  "dead fresh_red = False" "hole fresh_red = False" "holeCounter fresh_red = 0"
  "nextHole fresh_red = 250" "nextHoleSize fresh_red = 8"
  by (simp_all add: fresh_red_def player_init_def getNextHole_def getNextHoleSize_def
      Math_random_def createPlayer_def black_env_def blank_def classic_def red_def Let_def
      DEFAULT_startTime_def DEFAULT_afterDieTime_def split_def)

section \<open>The branches of \<^verbatim>\<open>draw()\<close>\<close>

lemma getNextHole_fields:
  "getNextHole e p w = (p\<lparr>nextHole := holeRate p + (random e (seed w) * 2 - 1) * holeRateRnd p\<rparr>, w\<lparr>seed := seed w + 1\<rparr>)"
  by (simp add: getNextHole_def Math_random_def)

lemma getNextHoleSize_fields:
  "getNextHoleSize e p w = (p\<lparr>nextHoleSize := holeSize p + (random e (seed w) * 2 - 1) * holeSizeRnd p\<rparr>, w\<lparr>seed := seed w + 1\<rparr>)"
  by (simp add: getNextHoleSize_def Math_random_def)

lemma createHole_cases:
  "createHole e p w =
     (if real_of_int (holeCounter p + 1) > nextHole p \<or> hole p then
        (if real_of_int (holeCounter p + 1) > nextHole p + nextHoleSize p then
           (p\<lparr>holeCounter := 0, hole := False,
              nextHole := holeRate p + (random e (seed w) * 2 - 1) * holeRateRnd p,
              nextHoleSize := holeSize p + (random e (seed w + 1) * 2 - 1) * holeSizeRnd p\<rparr>,
            w\<lparr>seed := seed w + 2\<rparr>)
         else (p\<lparr>holeCounter := holeCounter p + 1, hole := True\<rparr>, w))
      else (p\<lparr>holeCounter := holeCounter p + 1\<rparr>, w))"
  by (simp add: createHole_def Let_def getNextHole_fields getNextHoleSize_fields)

lemma createHole_ctx: "ctx (snd (createHole e p w)) = ctx w"
  by (simp add: createHole_cases)

lemma createHole_hole_world: "hole (fst (createHole e p w)) \<Longrightarrow> snd (createHole e p w) = w"
  by (simp add: createHole_cases split: if_splits)

lemma isColliding_outside:
  "xpos p < 0 \<or> xpos p > width e - scoreWidth e \<or> ypos p < 0 \<or> ypos p > height e
   \<Longrightarrow> isColliding e p w = (True, w)"
  by (simp add: isColliding_def Let_def)

lemma isColliding_dying: "isColliding e (p\<lparr>dying := d\<rparr>) w = isColliding e p w"
  by (simp add: isColliding_def Let_def)

lemma move_fields:
  "name (move e p) = name p" "dead (move e p) = dead p" "dying (move e p) = dying p"
  "hole (move e p) = hole p" "holeCounter (move e p) = holeCounter p"
  "afterDieCount (move e p) = afterDieCount p" "counter (move e p) = counter p"
  "nextHole (move e p) = nextHole p" "nextHoleSize (move e p) = nextHoleSize p"
  "afterDieTime (move e p) = afterDieTime p" "startTime (move e p) = startTime p"
  "onDeath (move e p) = onDeath p" "score (move e p) = score p"
  "holeRate (move e p) = holeRate p" "holeRateRnd (move e p) = holeRateRnd p"
  "holeSize (move e p) = holeSize p" "holeSizeRnd (move e p) = holeSizeRnd p"
  "size_p (move e p) = size_p p" "color (move e p) = color p"
  by (simp_all add: move_def Let_def)

lemma move_position:
  "xpos (move e p) = xpos p + speed p * speedMultiplier e * sin (angle (move e p) * pi / 180)"
  "ypos (move e p) = ypos p + speed p * speedMultiplier e * cos (angle (move e p) * pi / 180)"
  by (simp_all add: move_def Let_def)

lemma draw_skip:
  "real_of_int (counter p + 1) < startTime p \<and> counter p + 1 > 2 \<Longrightarrow>
   draw e p w = (p\<lparr>counter := counter p + 1\<rparr>, w, None)"
  by (simp add: draw_def Let_def)

lemma draw_die:
  "\<not> (real_of_int (counter p + 1) < startTime p \<and> counter p + 1 > 2) \<Longrightarrow>
   dying p \<Longrightarrow> real_of_int (afterDieCount p) > afterDieTime p \<Longrightarrow>
   draw e p w = (p\<lparr>counter := counter p + 1, dead := True\<rparr>, w,
                 if onDeath p then Some (name p) else None)"
  by (auto simp add: draw_def Let_def)

lemma draw_active_eq:
  assumes "\<not> (real_of_int (counter p + 1) < startTime p \<and> counter p + 1 > 2)"
      and "\<not> (dying p \<and> real_of_int (afterDieCount p) > afterDieTime p)"
  shows "draw e p w =
     (let p2 = (if dying p then p\<lparr>counter := counter p + 1, afterDieCount := afterDieCount p + 1\<rparr>
                else p\<lparr>counter := counter p + 1\<rparr>);
          p4 = fst (createHole e (move e p2) w); w4 = snd (createHole e (move e p2) w);
          hit = fst (isColliding e p4 w4); w5 = snd (isColliding e p4 w4);
          p5 = (if hit then p4\<lparr>dying := True\<rparr> else p4)
      in if \<not> hole p4 then (p5, drawStroke p5 w5, None) else (p4, w4, None))"
proof -
  let ?p1 = "p\<lparr>counter := counter p + 1\<rparr>"
  have g1: "\<not> (real_of_int (counter ?p1) < startTime ?p1 \<and> counter ?p1 > 2)"
    using assms(1) by simp
  have g2: "\<not> (dying ?p1 \<and> real_of_int (afterDieCount ?p1) > afterDieTime ?p1)"
    using assms(2) by simp
  have p2: "(if dying ?p1 then ?p1\<lparr>afterDieCount := afterDieCount ?p1 + 1\<rparr> else ?p1)
          = (if dying p then p\<lparr>counter := counter p + 1, afterDieCount := afterDieCount p + 1\<rparr>
                else p\<lparr>counter := counter p + 1\<rparr>)"
    by simp
  show ?thesis
    unfolding draw_def Let_def split_def
    apply (subst if_not_P [OF g1])
    apply (subst if_not_P [OF g2])
    apply (subst p2)
    apply (simp split del: if_split cong: if_cong)
    done
qed


lemma createHole_fields:
  "name (fst (createHole e p w)) = name p" "dead (fst (createHole e p w)) = dead p"
  "dying (fst (createHole e p w)) = dying p" "xpos (fst (createHole e p w)) = xpos p"
  "ypos (fst (createHole e p w)) = ypos p" "angle (fst (createHole e p w)) = angle p"
  "counter (fst (createHole e p w)) = counter p"
  "afterDieCount (fst (createHole e p w)) = afterDieCount p"
  "afterDieTime (fst (createHole e p w)) = afterDieTime p"
  "startTime (fst (createHole e p w)) = startTime p"
  "onDeath (fst (createHole e p w)) = onDeath p" "score (fst (createHole e p w)) = score p"
  "size_p (fst (createHole e p w)) = size_p p" "color (fst (createHole e p w)) = color p"
  by (simp_all add: createHole_cases)

lemma isColliding_hit_update:
  "isColliding e (if h then p\<lparr>dying := True\<rparr> else p) w = isColliding e p w"
  by (simp add: isColliding_dying)

lemma drawStroke_hit_update:
  "drawStroke (if h then p\<lparr>dying := True\<rparr> else p) w = drawStroke p w"
  by (simp add: drawStroke_def)

lemma draw_active:
  assumes "\<not> (real_of_int (counter p + 1) < startTime p \<and> counter p + 1 > 2)"
      and "\<not> (dying p \<and> real_of_int (afterDieCount p) > afterDieTime p)"
      and "draw e p w = (p', w', cb)"
  shows "cb = None" "dead p' = dead p" "counter p' = counter p + 1"
    "afterDieCount p' = (if dying p then afterDieCount p + 1 else afterDieCount p)"
    "xpos p' = xpos (move e p)" "ypos p' = ypos (move e p)" "angle p' = angle (move e p)"
    "name p' = name p" "afterDieTime p' = afterDieTime p" "startTime p' = startTime p"
    "onDeath p' = onDeath p" "score p' = score p"
    "hole p' \<Longrightarrow> w' = w \<and> dying p' = dying p"
    "\<not> hole p' \<Longrightarrow> \<exists>w4. ctx w4 = ctx w \<and> dying p' = (dying p \<or> fst (isColliding e p' w4))
                    \<and> w' = drawStroke p' (snd (isColliding e p' w4))"
proof -
  define p2 where "p2 = (if dying p then p\<lparr>counter := counter p + 1, afterDieCount := afterDieCount p + 1\<rparr>
                else p\<lparr>counter := counter p + 1\<rparr>)"
  define p4 where "p4 = fst (createHole e (move e p2) w)"
  define w4 where "w4 = snd (createHole e (move e p2) w)"
  define hit where "hit = fst (isColliding e p4 w4)"
  define p5 where "p5 = (if hit then p4\<lparr>dying := True\<rparr> else p4)"
  have eq: "(p', w', cb) = (if \<not> hole p4 then (p5, drawStroke p5 (snd (isColliding e p4 w4)), None)
                            else (p4, w4, None))"
    using draw_active_eq [OF assms(1,2), of e w] assms(3)
    by (simp add: Let_def p2_def p4_def w4_def hit_def p5_def)
  have mv: "xpos (move e p2) = xpos (move e p)" "ypos (move e p2) = ypos (move e p)"
    "angle (move e p2) = angle (move e p)"
    by (simp_all add: p2_def move_def Let_def)
  have p4f: "dead p4 = dead p" "counter p4 = counter p + 1" "dying p4 = dying p"
    "afterDieCount p4 = (if dying p then afterDieCount p + 1 else afterDieCount p)"
    "xpos p4 = xpos (move e p)" "ypos p4 = ypos (move e p)" "angle p4 = angle (move e p)"
    "name p4 = name p" "afterDieTime p4 = afterDieTime p" "startTime p4 = startTime p"
    "onDeath p4 = onDeath p" "score p4 = score p"
    by (simp_all add: p4_def createHole_fields move_fields mv) (simp_all add: p2_def)
  have hole5: "hole p5 = hole p4" by (simp add: p5_def)
  have p': "p' = (if \<not> hole p4 then p5 else p4)" and w': "w' = (if \<not> hole p4 then drawStroke p5 (snd (isColliding e p4 w4)) else w4)"
    and cb: "cb = None"
    using eq by (simp_all split: if_splits)
  show "cb = None" by (rule cb)
  show "dead p' = dead p" "counter p' = counter p + 1"
    "afterDieCount p' = (if dying p then afterDieCount p + 1 else afterDieCount p)"
    "xpos p' = xpos (move e p)" "ypos p' = ypos (move e p)" "angle p' = angle (move e p)"
    "name p' = name p" "afterDieTime p' = afterDieTime p" "startTime p' = startTime p"
    "onDeath p' = onDeath p" "score p' = score p"
    using p4f by (simp_all add: p' p5_def)
  show "w' = w \<and> dying p' = dying p" if "hole p'"
  proof -
    from that have h: "hole p4" by (simp add: p' hole5 split: if_splits)
    then have "w4 = w" unfolding p4_def w4_def by (rule createHole_hole_world)
    with h show ?thesis by (simp add: p' w' p4f)
  qed
  show "\<exists>w4. ctx w4 = ctx w \<and> dying p' = (dying p \<or> fst (isColliding e p' w4))
                    \<and> w' = drawStroke p' (snd (isColliding e p' w4))" if "\<not> hole p'"
  proof -
    from that have h: "\<not> hole p4" by (simp add: p' hole5 split: if_splits)
    have c: "ctx w4 = ctx w" by (simp add: w4_def createHole_ctx)
    have i: "isColliding e p5 w4 = isColliding e p4 w4"
      unfolding p5_def by (rule isColliding_hit_update)
    have d: "dying p5 = (dying p \<or> hit)" by (simp add: p5_def p4f)
    from h have "p' = p5" "w' = drawStroke p5 (snd (isColliding e p5 w4))"
      by (simp_all add: p' w' i)
    with c d i show ?thesis unfolding hit_def by auto
  qed
qed


section \<open>The concrete frames, evaluated\<close>

lemma fresh_red_eq:
  "fresh_red = \<lparr> name = ''red'', color = ''#f82801'', left = ''1'', right = ''q'',
       score = 0, dead = False, size_p = 3, speed = 16 / 10, curveSpeed = 2,
       holeRate = 450, holeRateRnd = 200, holeSize = 11, holeSizeRnd = 3,
       afterDieTime = 0, collisionTolerance = 30, startTime = 40,
       xpos = 50, ypos = 50, angle = 0,
       dying = False, afterDieCount = 0, counter = 0,
       hole = False, holeCounter = 0, nextHole = 250, nextHoleSize = 8,
       onDeath = True \<rparr>"
  by (simp add: fresh_red_def player_init_def getNextHole_def getNextHoleSize_def
      Math_random_def createPlayer_def black_env_def blank_def classic_def red_def Let_def
      DEFAULT_startTime_def DEFAULT_afterDieTime_def DEFAULT_collisionTolerance_def split_def)

lemmas eval_draw = draw_def move_def createHole_def isColliding_def red_env_def black_env_def
  speedMultiplier_def nonBlack_def drawStroke_def Let_def split_def

lemma frame1_fst:
  "fst frame1 = fresh_red\<lparr>counter := 1, ypos := 516 / 10, holeCounter := 1, dying := True\<rparr>"
  by (simp add: frame1_def fresh_red_eq eval_draw)

lemma frame1_cb: "snd (snd frame1) = None"
  by (simp add: frame1_def fresh_red_eq eval_draw)

lemma frame2_fst:
  "fst frame2 = fresh_red\<lparr>counter := 2, ypos := 532 / 10, holeCounter := 2, dying := True,
                           afterDieCount := 1\<rparr>"
  by (simp add: frame2_def frame1_fst fresh_red_eq eval_draw)



lemma draw_constants:
  "afterDieTime (fst (draw e p w)) = afterDieTime p" "startTime (fst (draw e p w)) = startTime p"
  "name (fst (draw e p w)) = name p" "onDeath (fst (draw e p w)) = onDeath p"
  "counter (fst (draw e p w)) = counter p + 1"
proof -
  obtain p' w' cb where d: "draw e p w = (p', w', cb)" by (cases "draw e p w")
  consider (skip) "real_of_int (counter p + 1) < startTime p \<and> counter p + 1 > 2"
    | (die) "\<not> (real_of_int (counter p + 1) < startTime p \<and> counter p + 1 > 2)"
            "dying p \<and> real_of_int (afterDieCount p) > afterDieTime p"
    | (act) "\<not> (real_of_int (counter p + 1) < startTime p \<and> counter p + 1 > 2)"
            "\<not> (dying p \<and> real_of_int (afterDieCount p) > afterDieTime p)"
    by blast
  then have "afterDieTime p' = afterDieTime p \<and> startTime p' = startTime p \<and> name p' = name p
          \<and> onDeath p' = onDeath p \<and> counter p' = counter p + 1"
  proof cases
    case skip
    from draw_skip [OF skip, of e w] d show ?thesis by auto
  next
    case die
    from draw_die [OF die(1), of e w] die(2) d show ?thesis by auto
  next
    case act
    from draw_active [OF act d] show ?thesis by simp
  qed
  then show "afterDieTime (fst (draw e p w)) = afterDieTime p" "startTime (fst (draw e p w)) = startTime p"
  "name (fst (draw e p w)) = name p" "onDeath (fst (draw e p w)) = onDeath p"
  "counter (fst (draw e p w)) = counter p + 1" by (simp_all add: d)
qed

lemma player_init_hole_fields:
  assumes "player_init e p w = (p0, w0)"
  shows "hole p0 = False" "holeCounter p0 = 0"
    "holeRateRnd p = 0 \<Longrightarrow> nextHole p0 = holeRate p"
    "holeSizeRnd p = 0 \<Longrightarrow> nextHoleSize p0 = holeSize p"
    "holeRate p0 = holeRate p" "holeRateRnd p0 = holeRateRnd p"
    "holeSize p0 = holeSize p" "holeSizeRnd p0 = holeSizeRnd p"
  using assms
  by (auto simp add: player_init_def Let_def split_def getNextHole_fields getNextHoleSize_fields
      Math_random_def)

lemma createHole_steady:
  assumes "steady R S k p"
  shows "steady R S (Suc k) (fst (createHole e p w))"
proof -
  let ?P = "R + S + 1"
  let ?c = "k mod ?P"
  have c: "?c < ?P" by simp
  from assms have f: "holeRateRnd p = 0" "holeSizeRnd p = 0" "holeRate p = real R"
    "holeSize p = real S" "nextHole p = real R" "nextHoleSize p = real S"
    "holeCounter p = int ?c" "hole p = (R < ?c)"
    by (simp_all add: steady_def)
  have hc: "real_of_int (holeCounter p + 1) = real (Suc ?c)" using f by simp
  have nh: "nextHole p + nextHoleSize p = real (R + S)" using f by simp
  have cmp1: "(real_of_int (holeCounter p + 1) > nextHole p) = (R < Suc ?c)"
    by (simp only: hc f(5) of_nat_less_iff)
  have cmp2: "(real_of_int (holeCounter p + 1) > nextHole p + nextHoleSize p) = (R + S < Suc ?c)"
    by (simp only: hc nh of_nat_less_iff)
  consider (reset) "?c = R + S" | (inhole) "R \<le> ?c" "?c < R + S" | (draw) "?c < R"
    using c by linarith
  then show ?thesis
  proof cases
    case reset
    then have "Suc k mod ?P = 0" by (simp add: mod_Suc)
    with reset show ?thesis
      by (simp add: steady_def createHole_cases cmp1 cmp2 f)
  next
    case inhole
    then have "Suc k mod ?P = Suc ?c" by (simp add: mod_Suc)
    with inhole show ?thesis
      by (simp add: steady_def createHole_cases cmp1 cmp2 f)
  next
    case draw
    then have "Suc k mod ?P = Suc ?c" by (simp add: mod_Suc)
    with draw show ?thesis
      by (simp add: steady_def createHole_cases cmp1 cmp2 f)
  qed
qed

section \<open>The round state machine\<close>

lemma checkRoundOver_loop_eq:
  "checkRoundOver_loop m d ps =
     (if ps \<noteq> [] \<and> int (length (pool m)) - 1 \<le> d + int (deadCount ps)
      then m\<lparr>running := False, roundCount := roundCount m + 1\<rparr> else m)"
proof (induction ps arbitrary: d)
  case Nil
  show ?case by simp
next
  case (Cons player rest)
  show ?case
    by (auto simp add: Cons.IH deadCount_def Let_def)
qed

lemma checkRoundOver_eq:
  "checkRoundOver m =
     (if pool m \<noteq> [] \<and> int (length (pool m)) - 1 \<le> int (deadCount (pool m))
      then m\<lparr>running := False, roundCount := roundCount m + 1\<rparr> else m)"
  by (simp add: checkRoundOver_def checkRoundOver_loop_eq)

lemma checkRoundOver_fields:
  "pool (checkRoundOver m) = pool m" "maxRounds (checkRoundOver m) = maxRounds m"
  "roundCount m \<le> roundCount (checkRoundOver m)"
  "roundCount m \<le> roundCount (checkRoundOver (m\<lparr>pool := ps\<rparr>))"
  by (simp_all add: checkRoundOver_eq)

lemma animate_player_fields:
  "pool (mgr (animate_player e s i)) =
     (if dead (pool (mgr s) ! i) then pool (mgr s)
      else (pool (mgr s))[i := fst (draw e (pool (mgr s) ! i) (wld s))])"
  "fired (animate_player e s i) = fired s"
  "drawn (animate_player e s i) = (if dead (pool (mgr s) ! i) then drawn s else drawn s @ [i])"
  "roundCount (mgr s) \<le> roundCount (mgr (animate_player e s i))"
  "maxRounds (mgr (animate_player e s i)) = maxRounds (mgr s)"
  by (simp_all add: animate_player_def Let_def split_def checkRoundOver_fields split: option.split)

lemma animate_loop:
  "j \<le> length (pool m) \<Longrightarrow>
   length (pool (mgr (foldl (animate_player e) \<lparr>mgr = m, wld = w, fired = [], drawn = []\<rparr> [0..<j])))
     = length (pool m)
   \<and> (\<forall>i. j \<le> i \<longrightarrow>
         pool (mgr (foldl (animate_player e) \<lparr>mgr = m, wld = w, fired = [], drawn = []\<rparr> [0..<j])) ! i
           = pool m ! i)
   \<and> fired (foldl (animate_player e) \<lparr>mgr = m, wld = w, fired = [], drawn = []\<rparr> [0..<j]) = []
   \<and> drawn (foldl (animate_player e) \<lparr>mgr = m, wld = w, fired = [], drawn = []\<rparr> [0..<j])
       = filter (\<lambda>i. \<not> dead (pool m ! i)) [0..<j]
   \<and> roundCount m
       \<le> roundCount (mgr (foldl (animate_player e) \<lparr>mgr = m, wld = w, fired = [], drawn = []\<rparr> [0..<j]))
   \<and> maxRounds (mgr (foldl (animate_player e) \<lparr>mgr = m, wld = w, fired = [], drawn = []\<rparr> [0..<j]))
       = maxRounds m"
proof (induction j)
  case 0
  show ?case by simp
next
  case (Suc j)
  let ?s = "foldl (animate_player e) \<lparr>mgr = m, wld = w, fired = [], drawn = []\<rparr> [0..<j]"
  from Suc have IH: "length (pool (mgr ?s)) = length (pool m)"
    "\<forall>i. j \<le> i \<longrightarrow> pool (mgr ?s) ! i = pool m ! i" "fired ?s = []"
    "drawn ?s = filter (\<lambda>i. \<not> dead (pool m ! i)) [0..<j]"
    "roundCount m \<le> roundCount (mgr ?s)" "maxRounds (mgr ?s) = maxRounds m"
    by simp_all
  have step: "foldl (animate_player e) \<lparr>mgr = m, wld = w, fired = [], drawn = []\<rparr> [0..<Suc j]
            = animate_player e ?s j"
    by simp
  have "roundCount m \<le> roundCount (mgr (animate_player e ?s j))"
    using IH(5) animate_player_fields(4) [of ?s e j] by linarith
  then show ?case
    unfolding step using IH by (simp add: animate_player_fields)
qed

lemma init_fields:
  "roundCount (init config m) = 0" "maxRounds (init config m) = cfg_maxRounds config"
  "running (init config m) = running m" "onNewRound (init config m) = onNewRound m"
  "onFinish (init config m) = onFinish m"
  "playerTemplates (init config m) = playerTemplates m"
  "playerConstants (init config m) = playerConstants m"
  "pool (init config m) = foldl (init_template config (playerConstants m)) [] (playerTemplates m)"
  by (simp_all add: init_def Let_def)

lemma init_all_length: "length (fst (init_all e ps w)) = length ps"
  by (induction ps arbitrary: w) (simp_all add: split_def Let_def)

lemma startRound_fields:
  "running (fst (startRound e m w)) = True" "roundCount (fst (startRound e m w)) = roundCount m"
  "maxRounds (fst (startRound e m w)) = maxRounds m"
  "pool (fst (startRound e m w)) = fst (init_all e (pool m) (w\<lparr>ctx := ctx w @ [ClearRect 0 0 (width e) (height e)]\<rparr>))"
  by (simp_all add: startRound_def Let_def split_def)

lemma animate_roundCount: "roundCount m \<le> roundCount (mgr (animate e m w))"
  using animate_loop [of "length (pool m)" m e w] by (simp add: animate_def)

lemmas eval_players = quick_red_def quick_yellow_def createPlayer_def quick_def finalConstant_def
  classic_def red_def yellow_def DEFAULT_startTime_def DEFAULT_afterDieTime_def
  DEFAULT_collisionTolerance_def

lemma game2_init_pool: "pool (init config1 game2) = [quick_red, quick_yellow]"
  by (simp add: init_fields game2_def PlayerManager_new_def init_template_def config1_def
      quick_red_def quick_yellow_def red_def yellow_def createPlayer_def Let_def)

lemma round1_fields:
  "running (fst round1)" "roundCount (fst round1) = 0" "maxRounds (fst round1) = 1"
  "pool (fst round1) = [quick_red\<lparr>xpos := 50, ypos := 50, nextHole := 250, nextHoleSize := 8\<rparr>,
                        quick_yellow\<lparr>xpos := 50, ypos := 50, nextHole := 250, nextHoleSize := 8\<rparr>]"
  unfolding round1_def startRound_fields game2_init_pool
  by (simp_all add: init_fields config1_def player_init_def getNextHole_def getNextHoleSize_def Math_random_def
      red_env_def black_env_def Let_def split_def eval_players)


lemmas eval_animate = animate_def animate_player_def checkRoundOver_def eval_draw

lemma over1_fields:
  "running over1 = False" "roundCount over1 = 1" "maxRounds over1 = 1" "onFinish over1"
  by (simp_all add: over1_def checkRoundOver_eq init_fields game1_def PlayerManager_new_def
      init_template_def config1_def red_def Let_def)

lemma held1_fields: "mgr held1 = over1" "fired held1 = [OnFinish]"
  by (simp_all add: held1_def animate_def over1_fields space_env_def black_env_def)

lemma held2_fields: "fired held2 = [OnFinish]"
  by (simp add: held2_def held1_fields animate_def over1_fields space_env_def black_env_def)

lemma reachable_over1: "reachable over1"
  unfolding over1_def game1_def by (intro reachable.intros)

lemma init_nobody_ready:
  "\<forall>t \<in> set ts. \<not> t_ready t \<Longrightarrow> foldl (init_template config k) pl ts = pl"
  by (induction ts arbitrary: pl) (simp_all add: init_template_def)

lemma nobody_ready: "\<forall>t \<in> set (playerTemplates (PlayerManager_new None True True None)). \<not> t_ready t"
  by (simp add: PlayerManager_new_def DEFAULT_PLAYER_TEMPLATES_def)

lemma nobody_fields: "pool nobody = []" "running nobody" "roundCount nobody = 0"
  using init_nobody_ready [OF nobody_ready, of config1 None "[]"]
  by (simp_all add: nobody_def startRound_fields init_fields PlayerManager_new_def)

section \<open>Draw-frames, holes and the canvas\<close>

lemma isColliding_trailDraws: "trailDraws (snd (isColliding e p w)) = trailDraws w"
  by (simp add: isColliding_def Let_def trailDraws_def)

lemma isColliding_ctx:
  "ctx w4 = ctx w \<Longrightarrow> fst (isColliding e p w4) = fst (isColliding e p w)"
  "ctx w4 = ctx w \<Longrightarrow> ctx (snd (isColliding e p w4)) = ctx (snd (isColliding e p w))"
  by (simp_all add: isColliding_def Let_def)

lemma isColliding_seed: "seed (snd (isColliding e p w)) = seed w"
  by (simp add: isColliding_def Let_def)

lemma drawStroke_trailDraws: "trailDraws (drawStroke p w) = Suc (trailDraws w)"
  by (simp add: drawStroke_def trailDraws_def)

lemma trailDraws_ctx: "ctx w4 = ctx w \<Longrightarrow> trailDraws w4 = trailDraws w"
  by (simp add: trailDraws_def)

lemma createHole_depends:
  assumes "holeCounter q = holeCounter p" "hole q = hole p" "nextHole q = nextHole p"
    "nextHoleSize q = nextHoleSize p" "holeRate q = holeRate p" "holeRateRnd q = holeRateRnd p"
    "holeSize q = holeSize p" "holeSizeRnd q = holeSizeRnd p"
  shows "holeCounter (fst (createHole e q w)) = holeCounter (fst (createHole e p w))"
    "hole (fst (createHole e q w)) = hole (fst (createHole e p w))"
    "nextHole (fst (createHole e q w)) = nextHole (fst (createHole e p w))"
    "nextHoleSize (fst (createHole e q w)) = nextHoleSize (fst (createHole e p w))"
    "holeRate (fst (createHole e q w)) = holeRate p" "holeRateRnd (fst (createHole e q w)) = holeRateRnd p"
    "holeSize (fst (createHole e q w)) = holeSize p" "holeSizeRnd (fst (createHole e q w)) = holeSizeRnd p"
    "snd (createHole e q w) = snd (createHole e p w)"
  using assms by (simp_all add: createHole_cases)

lemma draw_active_hole:
  assumes "\<not> (real_of_int (counter p + 1) < startTime p \<and> counter p + 1 > 2)"
      and "\<not> (dying p \<and> real_of_int (afterDieCount p) > afterDieTime p)"
      and "draw e p w = (p', w', cb)"
  shows "holeCounter p' = holeCounter (fst (createHole e p w))"
    "hole p' = hole (fst (createHole e p w))"
    "nextHole p' = nextHole (fst (createHole e p w))"
    "nextHoleSize p' = nextHoleSize (fst (createHole e p w))"
    "holeRate p' = holeRate p" "holeRateRnd p' = holeRateRnd p"
    "holeSize p' = holeSize p" "holeSizeRnd p' = holeSizeRnd p"
    "seed w' = seed (snd (createHole e p w))"
proof -
  define p2 where "p2 = (if dying p then p\<lparr>counter := counter p + 1, afterDieCount := afterDieCount p + 1\<rparr>
                else p\<lparr>counter := counter p + 1\<rparr>)"
  define q where "q = move e p2"
  define p4 where "p4 = fst (createHole e q w)"
  define w4 where "w4 = snd (createHole e q w)"
  define p5 where "p5 = (if fst (isColliding e p4 w4) then p4\<lparr>dying := True\<rparr> else p4)"
  have eq: "(p', w', cb) = (if \<not> hole p4 then (p5, drawStroke p5 (snd (isColliding e p4 w4)), None)
                            else (p4, w4, None))"
    using draw_active_eq [OF assms(1,2), of e w] assms(3)
    by (simp add: Let_def p2_def p4_def w4_def p5_def q_def)
  have q: "holeCounter q = holeCounter p" "hole q = hole p" "nextHole q = nextHole p"
    "nextHoleSize q = nextHoleSize p" "holeRate q = holeRate p" "holeRateRnd q = holeRateRnd p"
    "holeSize q = holeSize p" "holeSizeRnd q = holeSizeRnd p"
    by (simp_all add: q_def move_fields) (simp_all add: p2_def)
  note d = createHole_depends [OF q, of e w]
  have p': "p' = (if \<not> hole p4 then p5 else p4)"
    and w': "w' = (if \<not> hole p4 then drawStroke p5 (snd (isColliding e p4 w4)) else w4)"
    using eq by (simp_all split: if_splits)
  show "holeCounter p' = holeCounter (fst (createHole e p w))"
    "hole p' = hole (fst (createHole e p w))"
    "nextHole p' = nextHole (fst (createHole e p w))"
    "nextHoleSize p' = nextHoleSize (fst (createHole e p w))"
    "holeRate p' = holeRate p" "holeRateRnd p' = holeRateRnd p"
    "holeSize p' = holeSize p" "holeSizeRnd p' = holeSizeRnd p"
    using d by (simp_all add: p' p5_def p4_def)
  show "seed w' = seed (snd (createHole e p w))"
    using d(9) by (simp add: w' w4_def drawStroke_def isColliding_seed)
qed

lemma draw_active_canvas:
  assumes "\<not> (real_of_int (counter p + 1) < startTime p \<and> counter p + 1 > 2)"
      and "\<not> (dying p \<and> real_of_int (afterDieCount p) > afterDieTime p)"
      and "draw e p w = (p', w', cb)"
  shows "hole p' \<Longrightarrow> ctx w' = ctx w"
    "\<not> hole p' \<Longrightarrow> ctx w' = ctx (snd (isColliding e p' w))
                         @ [ArcFill (xpos p') (ypos p') (size_p p') (color p')]"
    "\<not> hole p' \<Longrightarrow> dying p' = (dying p \<or> fst (isColliding e p' w))"
    "trailDraws w' = (if hole p' then trailDraws w else Suc (trailDraws w))"
proof -
  note a = draw_active [OF assms]
  show h: "ctx w' = ctx w" if "hole p'" using a(13) [OF that] by simp
  have n: "ctx w' = ctx (snd (isColliding e p' w))
                         @ [ArcFill (xpos p') (ypos p') (size_p p') (color p')]
           \<and> dying p' = (dying p \<or> fst (isColliding e p' w))" if "\<not> hole p'"
  proof -
    from a(14) [OF that] obtain w4 where w4: "ctx w4 = ctx w"
      "dying p' = (dying p \<or> fst (isColliding e p' w4))"
      "w' = drawStroke p' (snd (isColliding e p' w4))" by blast
    note i = isColliding_ctx [OF w4(1), of e p']
    from w4(3) have "ctx w' = ctx (snd (isColliding e p' w))
                         @ [ArcFill (xpos p') (ypos p') (size_p p') (color p')]"
      by (simp add: drawStroke_def i(2))
    with w4(2) show ?thesis by (simp add: i(1))
  qed
  from n show "\<not> hole p' \<Longrightarrow> ctx w' = ctx (snd (isColliding e p' w))
                         @ [ArcFill (xpos p') (ypos p') (size_p p') (color p')]"
    "\<not> hole p' \<Longrightarrow> dying p' = (dying p \<or> fst (isColliding e p' w))" by simp_all
  show "trailDraws w' = (if hole p' then trailDraws w else Suc (trailDraws w))"
  proof (cases "hole p'")
    case True
    with h show ?thesis by (simp add: trailDraws_def)
  next
    case False
    from n [OF False] have "trailDraws w' = Suc (trailDraws (snd (isColliding e p' w)))"
      by (simp add: trailDraws_def)
    with False show ?thesis by (simp add: isColliding_trailDraws)
  qed
qed

lemma draw_idle:
  assumes "\<not> passes p" and "draw e p w = (p', w', cb)"
  shows "w' = w" "holeCounter p' = holeCounter p" "hole p' = hole p" "nextHole p' = nextHole p"
    "nextHoleSize p' = nextHoleSize p" "holeRate p' = holeRate p" "holeRateRnd p' = holeRateRnd p"
    "holeSize p' = holeSize p" "holeSizeRnd p' = holeSizeRnd p"
proof -
  consider (skip) "real_of_int (counter p + 1) < startTime p \<and> counter p + 1 > 2"
    | (die) "\<not> (real_of_int (counter p + 1) < startTime p \<and> counter p + 1 > 2)"
            "dying p" "real_of_int (afterDieCount p) > afterDieTime p"
    using assms(1) unfolding passes_def by blast
  then have "w' = w \<and> holeCounter p' = holeCounter p \<and> hole p' = hole p \<and> nextHole p' = nextHole p
    \<and> nextHoleSize p' = nextHoleSize p \<and> holeRate p' = holeRate p \<and> holeRateRnd p' = holeRateRnd p
    \<and> holeSize p' = holeSize p \<and> holeSizeRnd p' = holeSizeRnd p"
  proof cases
    case skip
    from draw_skip [OF skip, of e w] assms(2) show ?thesis by auto
  next
    case die
    from draw_die [OF die, of e w] assms(2) show ?thesis by auto
  qed
  then show "w' = w" "holeCounter p' = holeCounter p" "hole p' = hole p" "nextHole p' = nextHole p"
    "nextHoleSize p' = nextHoleSize p" "holeRate p' = holeRate p" "holeRateRnd p' = holeRateRnd p"
    "holeSize p' = holeSize p" "holeSizeRnd p' = holeSizeRnd p" by simp_all
qed

lemma draw_steady:
  assumes "steady R S k p" and "draw e p w = (p', w', cb)"
  shows "steady R S (if passes p then Suc k else k) p'"
proof (cases "passes p")
  case True
  then have g: "\<not> (real_of_int (counter p + 1) < startTime p \<and> counter p + 1 > 2)"
      "\<not> (dying p \<and> real_of_int (afterDieCount p) > afterDieTime p)"
    by (simp_all add: passes_def)
  note h = draw_active_hole [OF g assms(2)]
  from createHole_steady [OF assms(1), of e w] have "steady R S (Suc k) (fst (createHole e p w))" .
  moreover have "holeRate p = real R" "holeSize p = real S" "holeRateRnd p = 0" "holeSizeRnd p = 0"
    using assms(1) by (simp_all add: steady_def)
  ultimately have "steady R S (Suc k) p'"
    unfolding steady_def using h by simp
  with True show ?thesis by simp
next
  case False
  note i = draw_idle [OF False assms(2)]
  from assms(1) have "steady R S k p'" unfolding steady_def using i by simp
  with False show ?thesis by simp
qed

lemma frames_steady:
  assumes "steady R S 0 p"
  shows "steady R S (drawFrames es n p w) (fst (frames es n p w))"
proof (induction n)
  case 0
  with assms show ?case by simp
next
  case (Suc n)
  obtain pn wn where f: "frames es n p w = (pn, wn)" by (cases "frames es n p w")
  obtain p' w' cb where d: "draw (es n) pn wn = (p', w', cb)" by (cases "draw (es n) pn wn")
  from Suc f have "steady R S (drawFrames es n p w) pn" by simp
  from draw_steady [OF this d] show ?case by (auto simp add: f d split: if_splits)
qed

lemma hole_cycle_frames:
  assumes "holeRateRnd p = 0" and "holeSizeRnd p = 0"
      and "holeRate p = real R" and "holeSize p = real S"
      and "player_init e0 p w = (p0, w0)"
      and "frames es n p0 w0 = (pn, wn)"
      and "passes pn"
      and "draw (es n) pn wn = (p', w', cb)"
  shows "holeCounter p' = int (Suc (drawFrames es n p0 w0) mod (R + S + 1))
       \<and> hole p' = (R < Suc (drawFrames es n p0 w0) mod (R + S + 1))
       \<and> (if R < Suc (drawFrames es n p0 w0) mod (R + S + 1)
          then ctx w' = ctx wn \<and> trailDraws w' = trailDraws wn
          else trailDraws w' = Suc (trailDraws wn))"
proof -
  have "steady R S 0 p0"
    using player_init_hole_fields [OF assms(5)] assms(1-4) by (simp add: steady_def)
  from frames_steady [OF this, of es n w0] assms(6)
  have sn: "steady R S (drawFrames es n p0 w0) pn" by simp
  from draw_steady [OF sn assms(8)] assms(7)
  have s': "steady R S (Suc (drawFrames es n p0 w0)) p'" by simp
  from assms(7) have g: "\<not> (real_of_int (counter pn + 1) < startTime pn \<and> counter pn + 1 > 2)"
      "\<not> (dying pn \<and> real_of_int (afterDieCount pn) > afterDieTime pn)"
    by (simp_all add: passes_def)
  note c = draw_active_canvas [OF g assms(8)]
  from s' have hc: "holeCounter p' = int (Suc (drawFrames es n p0 w0) mod (R + S + 1))"
    and h: "hole p' = (R < Suc (drawFrames es n p0 w0) mod (R + S + 1))"
    by (simp_all add: steady_def)
  show ?thesis
  proof (cases "hole p'")
    case True
    with c(1,4) hc h show ?thesis by simp
  next
    case False
    with c(4) hc h show ?thesis by simp
  qed
qed

section \<open>The concrete runs, evaluated\<close>

lemmas eval_init = player_init_def getNextHole_def getNextHoleSize_def Math_random_def
  black_env_def blank_def Let_def split_def

lemmas eval_tiny = tiny_red_def createPlayer_def quick_def finalConstant_def tiny_holes_def red_def
  DEFAULT_afterDieTime_def DEFAULT_collisionTolerance_def

lemma low0_fst: "fst low0 = tiny_red\<lparr>xpos := 50, ypos := 50, nextHole := 1, nextHoleSize := 1\<rparr>"
  by (simp add: low0_def low_env_def eval_init eval_tiny)

lemma low1_fst: "fst low1 = tiny_red\<lparr>xpos := 50, ypos := 516 / 10, nextHole := 1, nextHoleSize := 1,
                                  counter := 1, holeCounter := 1\<rparr>"
  by (simp add: low1_def low0_fst low_env_def eval_draw eval_tiny)

lemma low2_fst: "fst low2 = tiny_red\<lparr>xpos := 50, ypos := 532 / 10, nextHole := 1, nextHoleSize := 1,
                                  counter := 2, holeCounter := 2, hole := True\<rparr>"
  by (simp add: low2_def low1_fst low_env_def eval_draw eval_tiny)

lemma low3_fst: "fst low3 = tiny_red\<lparr>xpos := 50, ypos := 548 / 10, nextHole := 1, nextHoleSize := 1,
                                  counter := 3, holeCounter := 0, dying := True\<rparr>"
  by (simp add: low3_def low2_fst low_env_def eval_draw eval_tiny getNextHole_def
      getNextHoleSize_def Math_random_def)

lemma wide0_fst: "fst wide0 = tiny_red\<lparr>xpos := 50, ypos := 50, nextHole := 1, nextHoleSize := 1\<rparr>"
  by (simp add: wide0_def eval_init eval_tiny)

lemma wide1_fst: "fst wide1 = tiny_red\<lparr>xpos := 50, ypos := 516 / 10, nextHole := 1, nextHoleSize := 1,
                                  counter := 1, holeCounter := 1\<rparr>"
  by (simp add: wide1_def wide0_fst eval_draw eval_tiny)

lemma wide2_fst: "fst wide2 = tiny_red\<lparr>xpos := 50, ypos := 532 / 10, nextHole := 1, nextHoleSize := 1,
                                  counter := 2, holeCounter := 2, hole := True\<rparr>"
  by (simp add: wide2_def wide1_fst eval_draw eval_tiny)

lemma wide3_fst: "fst wide3 = tiny_red\<lparr>xpos := 50, ypos := 548 / 10, nextHole := 1, nextHoleSize := 1,
                                  counter := 3, holeCounter := 0\<rparr>"
  by (simp add: wide3_def wide2_fst eval_draw eval_tiny getNextHole_def
      getNextHoleSize_def Math_random_def)

lemma wide4_fst: "fst wide4 = tiny_red\<lparr>xpos := 50, ypos := 564 / 10, nextHole := 1, nextHoleSize := 1,
                                  counter := 4, holeCounter := 1\<rparr>"
  by (simp add: wide4_def wide3_fst eval_draw eval_tiny)

lemma wide5_fst: "fst wide5 = tiny_red\<lparr>xpos := 50, ypos := 580 / 10, nextHole := 1, nextHoleSize := 1,
                                  counter := 5, holeCounter := 2, hole := True\<rparr>"
  by (simp add: wide5_def wide4_fst eval_draw eval_tiny)

lemmas eval_calm = createPlayer_def finalConstant_def tiny_holes_def red_def
  DEFAULT_afterDieTime_def DEFAULT_collisionTolerance_def DEFAULT_startTime_def

lemma calm0_fst:
  "fst calm0 = createPlayer red tiny_holes None True
     \<lparr>xpos := 50, ypos := 50, nextHole := 1, nextHoleSize := 1\<rparr>"
  by (simp add: calm0_def eval_init eval_calm)

lemma calm1_fst:
  "fst calm1 = createPlayer red tiny_holes None True
     \<lparr>xpos := 50, ypos := 516 / 10, nextHole := 1, nextHoleSize := 1,
      counter := 1, holeCounter := 1\<rparr>"
  by (simp add: calm1_def calm0_fst eval_draw eval_calm)

lemma calm2_fst:
  "fst calm2 = createPlayer red tiny_holes None True
     \<lparr>xpos := 50, ypos := 532 / 10, nextHole := 1, nextHoleSize := 1,
      counter := 2, holeCounter := 2, hole := True\<rparr>"
  by (simp add: calm2_def calm1_fst eval_draw eval_calm)

lemma passes_gates:
  "passes p \<Longrightarrow> \<not> (real_of_int (counter p + 1) < startTime p \<and> counter p + 1 > 2)"
  "passes p \<Longrightarrow> \<not> (dying p \<and> real_of_int (afterDieCount p) > afterDieTime p)"
  by (simp_all add: passes_def)

lemma low_passes: "passes (fst low0)" "passes (fst low1)" "passes (fst low2)"
  by (simp_all add: passes_def low0_fst low1_fst low2_fst eval_tiny)

lemma wide_passes: "passes (fst wide0)" "passes (fst wide1)" "passes (fst wide2)"
  "passes (fst wide3)" "passes (fst wide4)"
  by (simp_all add: passes_def wide0_fst wide1_fst wide2_fst wide3_fst wide4_fst eval_tiny)

lemma wide_draws:
  "trailDraws (fst (snd wide1)) = Suc (trailDraws (snd wide0))"
  "trailDraws (fst (snd wide2)) = trailDraws (fst (snd wide1))"
  "trailDraws (fst (snd wide3)) = Suc (trailDraws (fst (snd wide2)))"
  "trailDraws (fst (snd wide4)) = Suc (trailDraws (fst (snd wide3)))"
  "trailDraws (fst (snd wide5)) = trailDraws (fst (snd wide4))"
proof -
  have d: "draw black_env (fst wide0) (snd wide0) = (fst wide1, fst (snd wide1), snd (snd wide1))"
    "draw black_env (fst wide1) (fst (snd wide1)) = (fst wide2, fst (snd wide2), snd (snd wide2))"
    "draw black_env (fst wide2) (fst (snd wide2)) = (fst wide3, fst (snd wide3), snd (snd wide3))"
    "draw black_env (fst wide3) (fst (snd wide3)) = (fst wide4, fst (snd wide4), snd (snd wide4))"
    "draw black_env (fst wide4) (fst (snd wide4)) = (fst wide5, fst (snd wide5), snd (snd wide5))"
    by (simp_all add: wide1_def wide2_def wide3_def wide4_def wide5_def)
  have h: "\<not> hole (fst wide1)" "hole (fst wide2)" "\<not> hole (fst wide3)" "\<not> hole (fst wide4)"
    "hole (fst wide5)"
    by (simp_all add: wide1_fst wide2_fst wide3_fst wide4_fst wide5_fst eval_tiny)
  show "trailDraws (fst (snd wide1)) = Suc (trailDraws (snd wide0))"
    using draw_active_canvas(4) [OF passes_gates [OF wide_passes(1)] d(1)] h by simp
  show "trailDraws (fst (snd wide2)) = trailDraws (fst (snd wide1))"
    using draw_active_canvas(4) [OF passes_gates [OF wide_passes(2)] d(2)] h by simp
  show "trailDraws (fst (snd wide3)) = Suc (trailDraws (fst (snd wide2)))"
    using draw_active_canvas(4) [OF passes_gates [OF wide_passes(3)] d(3)] h by simp
  show "trailDraws (fst (snd wide4)) = Suc (trailDraws (fst (snd wide3)))"
    using draw_active_canvas(4) [OF passes_gates [OF wide_passes(4)] d(4)] h by simp
  show "trailDraws (fst (snd wide5)) = trailDraws (fst (snd wide4))"
    using draw_active_canvas(4) [OF passes_gates [OF wide_passes(5)] d(5)] h by simp
qed

lemma wide_frames:
  "frames (\<lambda>i. black_env) 0 (fst wide0) (snd wide0) = (fst wide0, snd wide0)"
  "frames (\<lambda>i. black_env) (Suc 0) (fst wide0) (snd wide0) = (fst wide1, fst (snd wide1))"
  "frames (\<lambda>i. black_env) (Suc (Suc 0)) (fst wide0) (snd wide0) = (fst wide2, fst (snd wide2))"
  "frames (\<lambda>i. black_env) (Suc (Suc (Suc 0))) (fst wide0) (snd wide0) = (fst wide3, fst (snd wide3))"
  by (simp_all add: wide1_def wide2_def wide3_def split_def Let_def)

lemma wide_drawFrames:
  "drawFrames (\<lambda>i. black_env) (Suc (Suc (Suc 0))) (fst wide0) (snd wide0) = 3"
  by (simp only: drawFrames.simps wide_frames fst_conv wide_passes if_True)

lemmas eval_red_init = player_init_def getNextHole_def getNextHoleSize_def Math_random_def
  red_env_def black_env_def blank_def Let_def split_def

lemma swift0_fst: "fst swift0 = quick_red\<lparr>xpos := 50, ypos := 50, nextHole := 250, nextHoleSize := 8\<rparr>"
  by (simp add: swift0_def eval_red_init eval_players)

lemma swift1_fst: "fst swift1 = quick_red\<lparr>xpos := 50, ypos := 516 / 10, nextHole := 250, nextHoleSize := 8,
                 counter := 1, holeCounter := 1, dying := True\<rparr>"
  by (simp add: swift1_def swift0_fst eval_draw eval_players)

lemma swift1_cb: "snd (snd swift1) = None"
  by (simp add: swift1_def swift0_fst eval_draw eval_players)

lemma swift2_fst: "fst swift2 = quick_red\<lparr>xpos := 50, ypos := 532 / 10, nextHole := 250, nextHoleSize := 8,
                 counter := 2, holeCounter := 2, dying := True, afterDieCount := 1\<rparr>"
  by (simp add: swift2_def swift1_fst eval_draw eval_players)

lemma swift2_cb: "snd (snd swift2) = None"
  by (simp add: swift2_def swift1_fst eval_draw eval_players)

lemma swift3_eq: "swift3 = (quick_red\<lparr>xpos := 50, ypos := 532 / 10, nextHole := 250, nextHoleSize := 8,
                 counter := 3, holeCounter := 2, dying := True, afterDieCount := 1, dead := True\<rparr>,
                 fst (snd swift2), Some ''red'')"
  by (simp add: swift3_def swift2_fst eval_draw eval_players)

lemma graze0_fst: "fst graze0 = tiny_red\<lparr>xpos := 50, ypos := 50, nextHole := 1, nextHoleSize := 1\<rparr>"
  by (simp add: graze0_def eval_red_init eval_tiny)

lemma graze1_fst: "fst graze1 = tiny_red\<lparr>xpos := 50, ypos := 516 / 10, nextHole := 1, nextHoleSize := 1,
                 counter := 1, holeCounter := 1, dying := True\<rparr>"
  by (simp add: graze1_def graze0_fst eval_draw eval_tiny)

lemma graze2_fst: "fst graze2 = tiny_red\<lparr>xpos := 50, ypos := 532 / 10, nextHole := 1, nextHoleSize := 1,
                 counter := 2, holeCounter := 2, hole := True, dying := True, afterDieCount := 1\<rparr>"
  by (simp add: graze2_def graze1_fst eval_draw eval_tiny)

lemma graze3_eq: "graze3 = (tiny_red\<lparr>xpos := 50, ypos := 532 / 10, nextHole := 1, nextHoleSize := 1,
                 counter := 3, holeCounter := 2, hole := True, dying := True, afterDieCount := 1,
                 dead := True\<rparr>, fst (snd graze2), Some ''red'')"
  by (simp add: graze3_def graze2_fst eval_draw eval_tiny)

lemma duel0_finish: "onFinish (fst duel0)"
  by (simp add: duel0_def startRound_def Let_def split_def init_fields game2_def PlayerManager_new_def)

lemma duel0_fields:
  "running (fst duel0)" "roundCount (fst duel0) = 0" "maxRounds (fst duel0) = 2"
  "pool (fst duel0) = [quick_red\<lparr>xpos := 50, ypos := 50, nextHole := 250, nextHoleSize := 8\<rparr>,
                        quick_yellow\<lparr>xpos := 50, ypos := 50, nextHole := 250, nextHoleSize := 8\<rparr>]"
proof -
  have p: "pool (init config2 game2) = [quick_red, quick_yellow]"
    by (simp add: init_fields game2_def PlayerManager_new_def init_template_def config2_def
      quick_red_def quick_yellow_def red_def yellow_def createPlayer_def Let_def)
  show "running (fst duel0)" "roundCount (fst duel0) = 0" "maxRounds (fst duel0) = 2"
  "pool (fst duel0) = [quick_red\<lparr>xpos := 50, ypos := 50, nextHole := 250, nextHoleSize := 8\<rparr>,
                        quick_yellow\<lparr>xpos := 50, ypos := 50, nextHole := 250, nextHoleSize := 8\<rparr>]"
    unfolding duel0_def startRound_fields p
    by (simp_all add: init_fields config2_def player_init_def getNextHole_def getNextHoleSize_def
      Math_random_def red_env_def black_env_def Let_def split_def eval_players)
qed

lemma duel1_fields:
  "running (mgr duel1)" "roundCount (mgr duel1) = 0" "maxRounds (mgr duel1) = 2"
  "pool (mgr duel1) =
     [quick_red\<lparr>xpos := 50, ypos := 516 / 10, nextHole := 250, nextHoleSize := 8,
                 counter := 1, holeCounter := 1, dying := True\<rparr>,
      quick_yellow\<lparr>xpos := 50, ypos := 516 / 10, nextHole := 250, nextHoleSize := 8,
                 counter := 1, holeCounter := 1, dying := True\<rparr>]"
  "onFinish (mgr duel1)"
  by (simp_all add: duel1_def duel0_fields duel0_finish eval_animate eval_players)

lemma duel2_fields:
  "running (mgr duel2)" "roundCount (mgr duel2) = 0" "maxRounds (mgr duel2) = 2"
  "pool (mgr duel2) =
     [quick_red\<lparr>xpos := 50, ypos := 532 / 10, nextHole := 250, nextHoleSize := 8,
                 counter := 2, holeCounter := 2, dying := True, afterDieCount := 1\<rparr>,
      quick_yellow\<lparr>xpos := 50, ypos := 532 / 10, nextHole := 250, nextHoleSize := 8,
                 counter := 2, holeCounter := 2, dying := True, afterDieCount := 1\<rparr>]"
  "onFinish (mgr duel2)"
  by (simp_all add: duel2_def duel1_fields eval_animate eval_players)

lemma duel3_fields:
  "running (mgr duel3) = False" "roundCount (mgr duel3) = 2" "maxRounds (mgr duel3) = 2"
  "map dead (pool (mgr duel3)) = [True, True]" "onFinish (mgr duel3)"
  by (simp_all add: duel3_def duel2_fields eval_animate eval_players)

lemma duel4_fields: "fired duel4 = [OnFinish]"
  by (simp add: duel4_def animate_def duel3_fields space_env_def black_env_def)

section \<open>The startup window\<close>

text \<open>
  Claim C10. For every player whose frame counter, after the increment that opens
  \<^verbatim>\<open>draw()\<close>, lies in 3 through \<^verbatim>\<open>startTime - 1\<close>, the call changes nothing but that
  counter: the position, the angle, the flags \<open>dying\<close> and \<open>dead\<close>, the hole flag and
  the hole counter are those of before, no call is made on the canvas context, no random
  value is consumed and the death callback is not called. In particular the hole counter
  does not advance during the startup window. The player need not even be alive.
\<close>

theorem draw_startup_window:
  assumes "3 \<le> counter p + 1" and "real_of_int (counter p + 1) \<le> startTime p - 1"
  shows "draw e p w = (p\<lparr>counter := counter p + 1\<rparr>, w, None)"
  using assms by (simp add: draw_def Let_def)

theorem draw_startup_window_witness:
  "3 \<le> counter (fresh_red\<lparr>counter := 2\<rparr>) + 1
   \<and> real_of_int (counter (fresh_red\<lparr>counter := 2\<rparr>) + 1) \<le> startTime (fresh_red\<lparr>counter := 2\<rparr>) - 1
   \<and> draw black_env (fresh_red\<lparr>counter := 2\<rparr>) blank = (fresh_red\<lparr>counter := 3\<rparr>, blank, None)"
  using draw_startup_window [of "fresh_red\<lparr>counter := 2\<rparr>" black_env blank]
  by (simp add: fresh_red_fields)

section \<open>Collision checks and holes\<close>

text \<open>
  Claim C4, amended. The boundary test is the first test of \<^verbatim>\<open>#isColliding()\<close>, and
  \<^verbatim>\<open>draw()\<close> calls \<^verbatim>\<open>#isColliding()\<close> only when the hole flag is unset after
  \<^verbatim>\<open>#createHole()\<close>. On a frame that passes the startup gate and the death gate, a
  player whose hole flag is set makes no collision check at all, neither against the
  boundary nor against the trails: its \<open>dying\<close> flag is unchanged and no call is made on
  the canvas. A player whose hole flag is unset and whose new position is outside the
  play rectangle is marked \<open>dying\<close>, whatever the pixels are.
\<close>

theorem collision_check_gated_by_hole:
  assumes "\<not> (real_of_int (counter p + 1) < startTime p \<and> counter p + 1 > 2)"
      and "\<not> (dying p \<and> real_of_int (afterDieCount p) > afterDieTime p)"
      and "draw e p w = (p', w', cb)"
  shows "(hole p' \<longrightarrow> dying p' = dying p \<and> w' = w)
       \<and> (\<not> hole p' \<and> (xpos p' < 0 \<or> xpos p' > width e - scoreWidth e
                          \<or> ypos p' < 0 \<or> ypos p' > height e) \<longrightarrow> dying p')"
proof (intro conjI impI)
  assume "hole p'"
  then show "dying p' = dying p" "w' = w" using draw_active(13) [OF assms] by simp_all
next
  assume out: "\<not> hole p' \<and> (xpos p' < 0 \<or> xpos p' > width e - scoreWidth e
                          \<or> ypos p' < 0 \<or> ypos p' > height e)"
  then obtain w4 where "dying p' = (dying p \<or> fst (isColliding e p' w4))"
    using draw_active(14) [OF assms] by blast
  moreover have "isColliding e p' w4 = (True, w4)"
    using out by (intro isColliding_outside) simp
  ultimately show "dying p'" by simp
qed

theorem collision_check_gated_by_hole_witness:
  "\<not> (real_of_int (counter (fst low1) + 1) < startTime (fst low1) \<and> counter (fst low1) + 1 > 2)
   \<and> \<not> (dying (fst low1) \<and> real_of_int (afterDieCount (fst low1)) > afterDieTime (fst low1))
   \<and> hole (fst low2)
   \<and> dying (fst low2) = dying (fst low1)
   \<and> fst (snd low2) = fst (snd low1)
   \<and> \<not> (real_of_int (counter (fst low2) + 1) < startTime (fst low2) \<and> counter (fst low2) + 1 > 2)
   \<and> \<not> (dying (fst low2) \<and> real_of_int (afterDieCount (fst low2)) > afterDieTime (fst low2))
   \<and> \<not> hole (fst low3)
   \<and> ypos (fst low3) > height low_env
   \<and> dying (fst low3)"
proof -
  have a: "\<not> (real_of_int (counter (fst low1) + 1) < startTime (fst low1) \<and> counter (fst low1) + 1 > 2)"
    "\<not> (dying (fst low1) \<and> real_of_int (afterDieCount (fst low1)) > afterDieTime (fst low1))"
    using low_passes(2) by (simp_all add: passes_def)
  have b: "\<not> (real_of_int (counter (fst low2) + 1) < startTime (fst low2) \<and> counter (fst low2) + 1 > 2)"
    "\<not> (dying (fst low2) \<and> real_of_int (afterDieCount (fst low2)) > afterDieTime (fst low2))"
    using low_passes(3) by (simp_all add: passes_def)
  have d: "draw low_env (fst low1) (fst (snd low1)) = (fst low2, fst (snd low2), snd (snd low2))"
    "draw low_env (fst low2) (fst (snd low2)) = (fst low3, fst (snd low3), snd (snd low3))"
    by (simp_all add: low2_def low3_def)
  have h: "hole (fst low2)" by (simp add: low2_fst)
  have nh: "\<not> hole (fst low3)" "ypos (fst low3) > height low_env"
    by (simp_all add: low3_fst low_env_def black_env_def eval_tiny)
  from collision_check_gated_by_hole [OF a d(1)] h
  have 1: "dying (fst low2) = dying (fst low1)" "fst (snd low2) = fst (snd low1)"
    by simp_all
  from collision_check_gated_by_hole [OF b d(2)] nh
  have 2: "dying (fst low3)" by simp
  from a b h nh 1 2 show ?thesis by blast
qed

text \<open>
  Claim C4, as stated: a player whose hole flag is set on a frame still registers a
  boundary collision. It fails on the canvas 52 pixels high: on its second frame the
  player is in a hole and has moved below the play rectangle, and it is not marked
  \<open>dying\<close> (the third frame, on which the hole is over, marks it).
\<close>

theorem hole_shields_from_boundary:
  "\<not> dying (fst low1) \<and> hole (fst low2) \<and> ypos (fst low2) > height low_env
   \<and> \<not> dying (fst low2)"
  by (simp add: low1_fst low2_fst low_env_def black_env_def eval_tiny)

section \<open>The first frames of a round\<close>

text \<open>
  Claim C5, amended. With \<^verbatim>\<open>startTime = 40\<close>, on the frame-counter values 3 through 39
  \<^verbatim>\<open>draw()\<close> makes no collision check and draws nothing: only the counter changes. On
  the frame-counter values 1 and 2, unless the player is due to die on that frame (it is
  \<open>dying\<close> and its after-death counter exceeds \<^verbatim>\<open>afterDieTime\<close>), \<^verbatim>\<open>draw()\<close> runs the
  complete update: the player moves by its frame-rate adjusted speed along its heading;
  the hole state advances by one call of \<^verbatim>\<open>#createHole()\<close>; if the hole flag is then
  set, nothing else happens; if it is unset, the collision check is made at the new
  position against the canvas as it was and the trail circle is drawn there.
\<close>

theorem startup_frames:
  assumes "startTime p = 40" and "draw e p w = (p', w', cb)"
  shows "(3 \<le> counter p + 1 \<and> counter p + 1 \<le> 39 \<longrightarrow>
            p' = p\<lparr>counter := counter p + 1\<rparr> \<and> w' = w \<and> cb = None)
       \<and> ((counter p + 1 = 1 \<or> counter p + 1 = 2)
            \<and> \<not> (dying p \<and> real_of_int (afterDieCount p) > afterDieTime p) \<longrightarrow>
            xpos p' = xpos p + speed p * speedMultiplier e * sin (angle p' * pi / 180)
          \<and> ypos p' = ypos p + speed p * speedMultiplier e * cos (angle p' * pi / 180)
          \<and> holeCounter p' = holeCounter (fst (createHole e p w))
          \<and> hole p' = hole (fst (createHole e p w))
          \<and> nextHole p' = nextHole (fst (createHole e p w))
          \<and> nextHoleSize p' = nextHoleSize (fst (createHole e p w))
          \<and> (hole p' \<longrightarrow> w' = w \<and> dying p' = dying p)
          \<and> (\<not> hole p' \<longrightarrow>
               (\<exists>w4. ctx w4 = ctx w \<and> dying p' = (dying p \<or> fst (isColliding e p' w4))
                     \<and> w' = drawStroke p' (snd (isColliding e p' w4)))))"
proof (intro conjI impI)
  assume "3 \<le> counter p + 1 \<and> counter p + 1 \<le> 39"
  then have "real_of_int (counter p + 1) < startTime p \<and> counter p + 1 > 2"
    using assms(1) by simp
  then have "draw e p w = (p\<lparr>counter := counter p + 1\<rparr>, w, None)" by (rule draw_skip)
  with assms(2) show "p' = p\<lparr>counter := counter p + 1\<rparr>" "w' = w" "cb = None" by simp_all
next
  assume a: "(counter p + 1 = 1 \<or> counter p + 1 = 2)
            \<and> \<not> (dying p \<and> real_of_int (afterDieCount p) > afterDieTime p)"
  then have g: "\<not> (real_of_int (counter p + 1) < startTime p \<and> counter p + 1 > 2)"
    "\<not> (dying p \<and> real_of_int (afterDieCount p) > afterDieTime p)" by auto
  note act = draw_active [OF g assms(2)]
  note hl = draw_active_hole [OF g assms(2)]
  show "xpos p' = xpos p + speed p * speedMultiplier e * sin (angle p' * pi / 180)"
    unfolding act(5,7) by (rule move_position)
  show "ypos p' = ypos p + speed p * speedMultiplier e * cos (angle p' * pi / 180)"
    unfolding act(6,7) by (rule move_position)
  show "holeCounter p' = holeCounter (fst (createHole e p w))" by (rule hl(1))
  show "hole p' = hole (fst (createHole e p w))" by (rule hl(2))
  show "nextHole p' = nextHole (fst (createHole e p w))" by (rule hl(3))
  show "nextHoleSize p' = nextHoleSize (fst (createHole e p w))" by (rule hl(4))
  show "w' = w" "dying p' = dying p" if "hole p'" using act(13) [OF that] by simp_all
  show "\<exists>w4. ctx w4 = ctx w \<and> dying p' = (dying p \<or> fst (isColliding e p' w4))
                     \<and> w' = drawStroke p' (snd (isColliding e p' w4))" if "\<not> hole p'"
    using act(14) [OF that] .
qed

theorem startup_frames_witness:
  "startTime (fst frame2) = 40
   \<and> 3 \<le> counter (fst frame2) + 1 \<and> counter (fst frame2) + 1 \<le> 39
   \<and> fst frame3 = (fst frame2)\<lparr>counter := counter (fst frame2) + 1\<rparr>
   \<and> fst (snd frame3) = fst (snd frame2) \<and> snd (snd frame3) = None
   \<and> startTime fresh_red = 40 \<and> counter fresh_red + 1 = 1
   \<and> \<not> (dying fresh_red \<and> real_of_int (afterDieCount fresh_red) > afterDieTime fresh_red)
   \<and> \<not> hole (fst frame1)
   \<and> ypos (fst frame1) = ypos fresh_red + speed fresh_red * speedMultiplier red_env
                             * cos (angle (fst frame1) * pi / 180)
   \<and> holeCounter (fst frame1) = holeCounter (fst (createHole red_env fresh_red blank))
   \<and> (\<exists>w4. ctx w4 = ctx blank
           \<and> dying (fst frame1) = (dying fresh_red \<or> fst (isColliding red_env (fst frame1) w4))
           \<and> fst (snd frame1) = drawStroke (fst frame1) (snd (isColliding red_env (fst frame1) w4)))
   \<and> startTime (fst calm1) = 40 \<and> counter (fst calm1) + 1 = 2
   \<and> \<not> (dying (fst calm1) \<and> real_of_int (afterDieCount (fst calm1)) > afterDieTime (fst calm1))
   \<and> hole (fst calm2)
   \<and> holeCounter (fst calm2) = holeCounter (fst (createHole black_env (fst calm1) (fst (snd calm1))))
   \<and> fst (snd calm2) = fst (snd calm1) \<and> dying (fst calm2) = dying (fst calm1)"
proof -
  have a: "startTime (fst frame2) = 40" "3 \<le> counter (fst frame2) + 1"
    "counter (fst frame2) + 1 \<le> 39"
    by (simp_all add: frame2_fst fresh_red_eq)
  have da: "draw red_env (fst frame2) (fst (snd frame2)) = (fst frame3, fst (snd frame3), snd (snd frame3))"
    by (simp add: frame3_def)
  from startup_frames [OF a(1) da] a
  have 1: "fst frame3 = (fst frame2)\<lparr>counter := counter (fst frame2) + 1\<rparr>"
    "fst (snd frame3) = fst (snd frame2)" "snd (snd frame3) = None"
    by simp_all
  have b: "startTime fresh_red = 40" "counter fresh_red + 1 = 1"
    "\<not> (dying fresh_red \<and> real_of_int (afterDieCount fresh_red) > afterDieTime fresh_red)"
    by (simp_all add: fresh_red_eq)
  have db: "draw red_env fresh_red blank = (fst frame1, fst (snd frame1), snd (snd frame1))"
    by (simp add: frame1_def)
  have nh: "\<not> hole (fst frame1)" by (simp add: frame1_fst fresh_red_eq)
  from startup_frames [OF b(1) db] b nh
  have 2: "ypos (fst frame1) = ypos fresh_red + speed fresh_red * speedMultiplier red_env
                             * cos (angle (fst frame1) * pi / 180)"
    "holeCounter (fst frame1) = holeCounter (fst (createHole red_env fresh_red blank))"
    "\<exists>w4. ctx w4 = ctx blank
           \<and> dying (fst frame1) = (dying fresh_red \<or> fst (isColliding red_env (fst frame1) w4))
           \<and> fst (snd frame1) = drawStroke (fst frame1) (snd (isColliding red_env (fst frame1) w4))"
    by simp_all
  have c: "startTime (fst calm1) = 40" "counter (fst calm1) + 1 = 2"
    "\<not> (dying (fst calm1) \<and> real_of_int (afterDieCount (fst calm1)) > afterDieTime (fst calm1))"
    by (simp_all add: calm1_fst eval_calm)
  have dc: "draw black_env (fst calm1) (fst (snd calm1)) = (fst calm2, fst (snd calm2), snd (snd calm2))"
    by (simp add: calm2_def)
  have ih: "hole (fst calm2)" by (simp add: calm2_fst)
  from startup_frames [OF c(1) dc] c ih
  have 3: "holeCounter (fst calm2) = holeCounter (fst (createHole black_env (fst calm1) (fst (snd calm1))))"
    "fst (snd calm2) = fst (snd calm1)" "dying (fst calm2) = dying (fst calm1)"
    by simp_all
  from a 1 b nh 2 c ih 3 show ?thesis by blast
qed

text \<open>
  Claim C5, as stated: on the frame-counter values 1 and 2 the player draws but neither
  moves nor checks for a collision. It fails: on the red canvas the player moves by its
  speed on frame 1 and again on frame 2, and frame 1 marks it \<open>dying\<close>.
\<close>

theorem first_frame_moves_and_collides:
  "counter fresh_red = 0 \<and> counter (fst frame1) = 1
   \<and> ypos fresh_red = 50 \<and> ypos (fst frame1) = 516 / 10
   \<and> \<not> dying fresh_red \<and> dying (fst frame1)
   \<and> counter (fst frame2) = 2 \<and> ypos (fst frame2) = 532 / 10"
  by (simp add: frame1_fst frame2_fst fresh_red_fields)

section \<open>From the hit to the death\<close>




section \<open>Holes without jitter\<close>

text \<open>
  Claim C6, amended. For a player with \<^verbatim>\<open>holeRateRnd = 0\<close> and \<^verbatim>\<open>holeSizeRnd = 0\<close>,
  \<^verbatim>\<open>holeRate = R\<close> and \<^verbatim>\<open>holeSize = S\<close> natural numbers, the sequence of drawing and
  of holes does not depend on the random values, the keys or the canvas, and has the
  period \<open>R + S + 1\<close> draw-frames: on the \<open>k\<close>-th draw-frame since \<^verbatim>\<open>init()\<close> (the
  \<open>k\<close>-th call of \<^verbatim>\<open>draw()\<close> that gets past the startup gate and the death gate),
  the hole counter becomes \<open>k mod (R + S + 1)\<close>; if that value is above \<open>R\<close> the hole
  flag is set and \<^verbatim>\<open>draw()\<close> draws nothing and leaves the canvas alone, otherwise the
  flag is unset and \<^verbatim>\<open>draw()\<close> draws one trail circle. So the player draws on its
  first \<open>R\<close> draw-frames and then alternates for ever between not drawing on exactly
  \<open>S\<close> draw-frames and drawing on exactly \<open>R + 1\<close> draw-frames: the frame that ends a
  hole resets the counter to 0 and already draws.
\<close>

theorem hole_cycle:
  assumes "holeRateRnd p = 0" and "holeSizeRnd p = 0"
      and "holeRate p = real R" and "holeSize p = real S"
      and "player_init e0 p w = (p0, w0)"
      and "frames es n p0 w0 = (pn, wn)"
      and "passes pn"
      and "draw (es n) pn wn = (p', w', cb)"
  shows "holeCounter p' = int (Suc (drawFrames es n p0 w0) mod (R + S + 1))
       \<and> hole p' = (R < Suc (drawFrames es n p0 w0) mod (R + S + 1))
       \<and> (if R < Suc (drawFrames es n p0 w0) mod (R + S + 1)
          then ctx w' = ctx wn \<and> trailDraws w' = trailDraws wn
          else trailDraws w' = Suc (trailDraws wn))"
  using assms by (rule hole_cycle_frames)

theorem hole_cycle_witness:
  "holeRateRnd tiny_red = 0 \<and> holeSizeRnd tiny_red = 0
   \<and> holeRate tiny_red = real 1 \<and> holeSize tiny_red = real 1
   \<and> passes (fst wide3)
   \<and> drawFrames (\<lambda>i. black_env) (Suc (Suc (Suc 0))) (fst wide0) (snd wide0) = 3
   \<and> holeCounter (fst wide4) = int (Suc 3 mod (1 + 1 + 1))
   \<and> hole (fst wide4) = (1 < Suc 3 mod (1 + 1 + 1))
   \<and> trailDraws (fst (snd wide4)) = Suc (trailDraws (fst (snd wide3)))"
proof -
  have c: "holeRateRnd tiny_red = 0" "holeSizeRnd tiny_red = 0"
    "holeRate tiny_red = real 1" "holeSize tiny_red = real 1"
    by (simp_all add: eval_tiny)
  have i: "player_init black_env tiny_red blank = (fst wide0, snd wide0)"
    by (simp add: wide0_def)
  have d: "draw black_env (fst wide3) (fst (snd wide3)) = (fst wide4, fst (snd wide4), snd (snd wide4))"
    by (simp add: wide4_def)
  from hole_cycle [OF c i wide_frames(4) wide_passes(4) d] c wide_passes(4) wide_drawFrames
  show ?thesis by simp
qed

text \<open>
  Claim C6, as stated: the player draws for exactly \<^verbatim>\<open>holeRate\<close> consecutive
  draw-frames between two holes. It fails for \<^verbatim>\<open>holeRate = 1\<close>, \<^verbatim>\<open>holeSize = 1\<close>: the
  second and the fifth frame draw nothing, and the third and the fourth frame between
  them each draw a trail circle.
\<close>

theorem two_drawn_frames_between_holes:
  "holeRate (fst wide0) = 1 \<and> holeSize (fst wide0) = 1
   \<and> holeRateRnd (fst wide0) = 0 \<and> holeSizeRnd (fst wide0) = 0
   \<and> trailDraws (fst (snd wide2)) = trailDraws (fst (snd wide1))
   \<and> trailDraws (fst (snd wide3)) = Suc (trailDraws (fst (snd wide2)))
   \<and> trailDraws (fst (snd wide4)) = Suc (trailDraws (fst (snd wide3)))
   \<and> trailDraws (fst (snd wide5)) = trailDraws (fst (snd wide4))"
  by (simp add: wide_draws wide0_fst eval_tiny)

section \<open>The continue signal and the frame loop\<close>

text \<open>
  Claim C9, amended. When \<open>running\<close> is false, \<^verbatim>\<open>animate()\<close> reads the level of the
  continue signal, not its edge: on every call during which the space key is down it
  calls \<^verbatim>\<open>onNewRound\<close> if \<^verbatim>\<open>roundCount < maxRounds\<close> and \<^verbatim>\<open>onFinish\<close> otherwise
  (each only if it was injected), and it calls nothing when the key is up; no player is
  drawn. When \<open>running\<close> is true, no callback is called, whatever the keys are, and
  \<^verbatim>\<open>draw()\<close> is called exactly on the players whose \<open>dead\<close> flag is unset when
  \<^verbatim>\<open>animate()\<close> starts, in the order of the roster.
\<close>

theorem animate_level_triggered:
  "(\<not> running m \<longrightarrow>
      fired (animate e m w) =
        (if isKeyPressed e ''space'' then
           (if roundCount m < maxRounds m then (if onNewRound m then [OnNewRound] else [])
            else (if onFinish m then [OnFinish] else []))
         else [])
      \<and> drawn (animate e m w) = [])
   \<and> (running m \<longrightarrow>
      fired (animate e m w) = []
      \<and> drawn (animate e m w) = filter (\<lambda>i. \<not> dead (pool m ! i)) [0..<length (pool m)])"
  using animate_loop [of "length (pool m)" m e w] by (simp add: animate_def)

theorem animate_level_triggered_witness:
  "\<not> running over1 \<and> isKeyPressed space_env ''space'' \<and> \<not> roundCount over1 < maxRounds over1
   \<and> fired (animate space_env over1 blank) = [OnFinish]
   \<and> running (fst round1)
   \<and> fired (animate red_env (fst round1) (snd round1)) = []
   \<and> drawn (animate red_env (fst round1) (snd round1)) = [0, 1]"
proof -
  have d: "filter (\<lambda>i. \<not> dead (pool (fst round1) ! i)) [0..<length (pool (fst round1))] = [0, 1]"
    by (simp add: round1_fields eval_players)
  from animate_level_triggered [of over1 space_env blank]
  have 1: "fired (animate space_env over1 blank) = [OnFinish]"
    by (simp add: over1_fields space_env_def black_env_def)
  from animate_level_triggered [of "fst round1" red_env "snd round1"] d
  have 2: "fired (animate red_env (fst round1) (snd round1)) = []"
    "drawn (animate red_env (fst round1) (snd round1)) = [0, 1]"
    by (simp_all add: round1_fields(1))
  from 1 2 show ?thesis
    by (simp add: over1_fields round1_fields(1) space_env_def black_env_def)
qed

text \<open>
  Claim C9, as stated: one firing per press of the continue key, not one per frame
  while it is held. It fails: after the only round of a match, two successive frames
  with the space key down both call \<^verbatim>\<open>onFinish\<close>.
\<close>

theorem held_key_fires_every_frame:
  "\<not> running over1 \<and> isKeyPressed space_env ''space''
   \<and> fired held1 = [OnFinish] \<and> \<not> running (mgr held1) \<and> fired held2 = [OnFinish]"
  by (simp add: held1_fields held2_fields over1_fields space_env_def black_env_def)

section \<open>The end of a round\<close>

text \<open>
  Claim C2: \<open>roundCount\<close> grows by exactly 1 per round, also when two players die in
  the same \<^verbatim>\<open>animate()\<close> pass. The code counts a round for every death that finds at
  most one player alive: in the third frame of the first round of the two-round match
  on the red canvas both players die, each death runs \<^verbatim>\<open>checkRoundOver()\<close>, and
  \<open>roundCount\<close> goes from 0 to 2; the next frame with the space key down calls
  \<^verbatim>\<open>onFinish\<close>, after a single round of a match of two.
\<close>

theorem two_deaths_in_one_pass:
  "maxRounds (mgr duel2) = 2 \<and> running (mgr duel2) \<and> roundCount (mgr duel2) = 0
   \<and> map dead (pool (mgr duel2)) = [False, False]
   \<and> map dead (pool (mgr duel3)) = [True, True]
   \<and> \<not> running (mgr duel3) \<and> roundCount (mgr duel3) = 2
   \<and> fired duel4 = [OnFinish]"
  by (simp add: duel2_fields duel3_fields duel4_fields eval_players)

section \<open>The round count\<close>

text \<open>
  Claim C3, amended. In every state of a manager that calls of the constructor,
  \<^verbatim>\<open>init()\<close>, \<^verbatim>\<open>startRound()\<close>, \<^verbatim>\<open>animate()\<close> and \<^verbatim>\<open>checkRoundOver()\<close> can reach,
  \<open>0 \<le> roundCount\<close> holds. No upper bound by \<open>maxRounds\<close> is kept.
\<close>

theorem roundCount_nonnegative:
  assumes "reachable m"
  shows "0 \<le> roundCount m"
  using assms
proof (induction rule: reachable.induct)
  case (reach_new constants newRound finish templates)
  show ?case by (simp add: PlayerManager_new_def)
next
  case (reach_init m config)
  show ?case by (simp add: init_fields)
next
  case (reach_startRound m e w)
  then show ?case by (simp add: startRound_fields)
next
  case (reach_animate m e w)
  with animate_roundCount [of m e w] show ?case by linarith
next
  case (reach_checkRoundOver m)
  with checkRoundOver_fields(3) [of m] show ?case by linarith
qed

theorem roundCount_nonnegative_witness:
  "reachable over1 \<and> 0 \<le> roundCount over1"
  using roundCount_nonnegative [OF reachable_over1] reachable_over1 by simp

text \<open>
  Claim C3, as stated: \<open>roundCount \<le> maxRounds\<close> in every reachable state. It fails for
  a match of one round with one player: after the round is over, a second call of
  \<^verbatim>\<open>checkRoundOver()\<close>, at once or after another \<^verbatim>\<open>startRound()\<close>, counts a second
  round.
\<close>

theorem roundCount_exceeds_maxRounds:
  "reachable (checkRoundOver over1)
   \<and> maxRounds (checkRoundOver over1) = 1 \<and> roundCount (checkRoundOver over1) = 2
   \<and> reachable (checkRoundOver (fst (startRound black_env over1 blank)))
   \<and> maxRounds (checkRoundOver (fst (startRound black_env over1 blank))) = 1
   \<and> roundCount (checkRoundOver (fst (startRound black_env over1 blank))) = 2"
proof -
  have p: "pool over1 \<noteq> []" "length (pool over1) = 1"
    by (simp_all add: over1_def checkRoundOver_fields init_fields game1_def PlayerManager_new_def
      init_template_def config1_def red_def Let_def)
  have q: "length (pool (fst (startRound black_env over1 blank))) = 1"
    using p by (simp add: startRound_fields init_all_length)
  then have q': "pool (fst (startRound black_env over1 blank)) \<noteq> []" by auto
  have r: "reachable (checkRoundOver over1)"
    "reachable (checkRoundOver (fst (startRound black_env over1 blank)))"
    using reachable_over1 by (intro reachable.intros; assumption)+
  have 1: "maxRounds (checkRoundOver over1) = 1" "roundCount (checkRoundOver over1) = 2"
    using p by (simp_all add: checkRoundOver_eq over1_fields)
  have 2: "maxRounds (checkRoundOver (fst (startRound black_env over1 blank))) = 1"
    "roundCount (checkRoundOver (fst (startRound black_env over1 blank))) = 2"
    using q q' by (simp_all add: checkRoundOver_eq startRound_fields over1_fields)
  from r 1 2 show ?thesis by simp
qed

section \<open>The empty roster\<close>

text \<open>
  Claim C8, amended. A roster built from zero ready templates is empty, and on an empty
  pool \<^verbatim>\<open>checkRoundOver()\<close> changes nothing, since its test sits inside the loop over
  the pool: after \<^verbatim>\<open>startRound()\<close> the round is running and stays running, and
  \<open>roundCount\<close> is not incremented.
\<close>

theorem empty_roster_round_never_ends:
  assumes "\<forall>t \<in> set (playerTemplates m). \<not> t_ready t"
  shows "pool (init config m) = []
       \<and> pool (fst (startRound e (init config m) w)) = []
       \<and> running (fst (startRound e (init config m) w))
       \<and> checkRoundOver (fst (startRound e (init config m) w)) = fst (startRound e (init config m) w)"
proof -
  have p: "pool (init config m) = []"
    using init_nobody_ready [OF assms] by (simp add: init_fields)
  then have q: "pool (fst (startRound e (init config m) w)) = []"
    by (simp add: startRound_fields)
  from p q show ?thesis by (simp add: checkRoundOver_eq startRound_fields)
qed

theorem empty_roster_round_never_ends_witness:
  "pool nobody = [] \<and> running nobody \<and> checkRoundOver nobody = nobody"
  using empty_roster_round_never_ends [OF nobody_ready, of config1 black_env blank]
  by (simp add: nobody_def)

text \<open>
  Claim C8, as stated: one call of \<^verbatim>\<open>checkRoundOver()\<close> on the empty pool ends the
  round and increments \<open>roundCount\<close>. It fails for the default templates, none ready.
\<close>

theorem empty_pool_check_changes_nothing:
  "pool nobody = [] \<and> running (checkRoundOver nobody) \<and> roundCount (checkRoundOver nobody) = 0"
  by (simp add: checkRoundOver_eq nobody_fields)

section \<open>Scores across \<^verbatim>\<open>init()\<close>\<close>

text \<open>
  Claim C1: a player created by \<^verbatim>\<open>init()\<close> for a ready template keeps the score of the
  player of the same name in the previous roster. The code looks the name up in
  \<^verbatim>\<open>this.#pool\<close> after it has emptied it, so the previous roster is never consulted:
  in the two-player match where both players have scored 5, \<^verbatim>\<open>init()\<close> builds a roster
  of the same two names with the scores 0 and 0.
\<close>

theorem init_forgets_scores:
  "map name (pool played) = [''red'', ''yellow''] \<and> map score (pool played) = [5, 5]
   \<and> map name (pool (init config1 played)) = [''red'', ''yellow'']
   \<and> map score (pool (init config1 played)) = [0, 0]"
  by (simp add: played_def game2_init_pool init_fields game2_def PlayerManager_new_def
      init_template_def config1_def Let_def eval_players)

end
